theory Spec2Isabelle
  imports Complex_Main "HOL-Library.Multiset"
begin

section \<open>Numbers\<close>

text \<open>
  The size report of \<^verbatim>\<open>src/index.js\<close> computes with JavaScript numbers, which are
  doubles. A number is modelled by the exact rational it denotes. File sizes are
  natural numbers of bytes.

  \<^verbatim>\<open>x.toFixed(2)\<close> yields the decimal string of the integer \<open>n\<close> for which \<open>n / 100\<close>
  is closest to \<open>x\<close>, the larger \<open>n\<close> on a tie. Every use of the string in the source
  converts it back to a number (\<^verbatim>\<open>dirSize * 1024 * 1024\<close>, \<^verbatim>\<open>parseFloat(size)\<close>), so the
  model keeps the value of the string, \<open>n / 100\<close>. All arguments are non-negative
  and far below \<open>10^21\<close>, where the string would switch to exponent notation.

  Where the arithmetic of the source is exact the model agrees with it: byte counts and
  their sums (below \<open>2^53\<close>) are integers, and the division by \<open>1024 * 1024\<close> only changes
  the exponent. The source is inexact where it reads back a string such as \<^verbatim>\<open>2.13\<close>,
  which is no double, and adds to it; the double then lies beside the rational by less
  than one part in \<open>2^52\<close>. That changes a result of \<^verbatim>\<open>toFixed(2)\<close> only where the
  rational is a tie, an odd multiple of 0.005: there the model rounds up and the
  double may lie below. It takes a subdirectory with a size that is not a whole number
  of megabytes to get there; the examples and the exactness result below have none,
  and the sums of the report, being sums of hundredths, are never ties.
\<close>

definition toFixed2 :: "rat \<Rightarrow> rat" where
  "toFixed2 x = of_int \<lfloor>x * 100 + 1 / 2\<rfloor> / 100"

section \<open>The file system\<close>

text \<open>
  What the size scan reads of the disk: a tree of regular files (with their byte
  length), directories (with their entries, in the order \<^verbatim>\<open>readdirSync\<close> lists them),
  symbolic links, other entries (sockets, FIFOs, devices) and directories that cannot
  be listed. A symbolic link carries what its target path resolves to, \<open>None\<close> when it
  dangles. The tree is finite, so a link that points back into its own ancestors is
  outside the model.
\<close>

datatype node =
    File nat
  | Dir "(string \<times> node) list"
  | Symlink "node option"
  | Special
  | Unreadable

text \<open>The part of \<^verbatim>\<open>fs.Stats\<close> that the scan looks at.\<close>

record stats =
  isSymbolicLink :: bool
  isDirectory :: bool
  isFile :: bool
  st_size :: nat

text \<open>Path resolution follows symbolic links to the end; \<open>None\<close> is \<^verbatim>\<open>ENOENT\<close>.\<close>

fun resolve :: "node \<Rightarrow> node option" where
  "resolve (Symlink None) = None"
| "resolve (Symlink (Some t)) = resolve t"
| "resolve n = Some n"

text \<open>
  \<^verbatim>\<open>fs.statSync(filePath)\<close> is \<^verbatim>\<open>stat(2)\<close>: it describes what the path resolves to, never
  the link itself, so \<^verbatim>\<open>isSymbolicLink()\<close> is false on every result (only \<^verbatim>\<open>lstatSync\<close>
  can report a link). It throws when the path does not resolve.
\<close>

definition statSync :: "node \<Rightarrow> stats option" where
  "statSync p =
     (case resolve p of
        None \<Rightarrow> None
      | Some (File k) \<Rightarrow>
          Some \<lparr>isSymbolicLink = False, isDirectory = False, isFile = True, st_size = k\<rparr>
      | Some (Dir es) \<Rightarrow>
          Some \<lparr>isSymbolicLink = False, isDirectory = True, isFile = False, st_size = 4096\<rparr>
      | Some Unreadable \<Rightarrow>
          Some \<lparr>isSymbolicLink = False, isDirectory = True, isFile = False, st_size = 4096\<rparr>
      | Some _ \<Rightarrow>
          Some \<lparr>isSymbolicLink = False, isDirectory = False, isFile = False, st_size = 0\<rparr>)"

text \<open>
  \<^verbatim>\<open>fs.readdirSync(dirPath)\<close> lists a directory, also through a link to one, and throws
  on anything else. The model returns each name with the node at
  \<^verbatim>\<open>path.join(dirPath, file)\<close>.
\<close>

definition readdirSync :: "node \<Rightarrow> (string \<times> node) list option" where
  "readdirSync p = (case resolve p of Some (Dir es) \<Rightarrow> Some es | _ \<Rightarrow> None)"

text \<open>\<^verbatim>\<open>fs.existsSync\<close> of a path that may be absent from its parent directory.\<close>

definition existsSync :: "node option \<Rightarrow> bool" where
  "existsSync p = (case p of None \<Rightarrow> False | Some n \<Rightarrow> resolve n \<noteq> None)"

section \<open>The size aggregator\<close>

text \<open>
  \<^verbatim>\<open>getTotalSizeInMB\<close> (lines 354 to 380). \<open>scanFiles\<close> is its \<^verbatim>\<open>for\<close> loop with the
  running \<^verbatim>\<open>totalSize\<close>; \<open>None\<close> is an exception thrown inside the \<^verbatim>\<open>try\<close> block,
  which the \<^verbatim>\<open>catch\<close> turns into the result 0 for the whole directory. The message the
  \<^verbatim>\<open>catch\<close> logs is not modelled.
\<close>

lemma resolve_size: "resolve n = Some t \<Longrightarrow> size t \<le> size n"
  by (induction n rule: resolve.induct) auto

lemma resolve_Dir_size:
  "resolve n = Some (Dir es) \<Longrightarrow> size_list (size_prod (\<lambda>_. 0) size) es < size n"
  using resolve_size[of n "Dir es"] by simp

function getTotalSizeInMB :: "node \<Rightarrow> rat"
  and scanFiles :: "(string \<times> node) list \<Rightarrow> rat \<Rightarrow> rat option" where
  "getTotalSizeInMB dirPath =
     (case readdirSync dirPath of
        None \<Rightarrow> 0
      | Some files \<Rightarrow>
          (case scanFiles files 0 of
             None \<Rightarrow> 0
           | Some totalSize \<Rightarrow> toFixed2 (totalSize / (1024 * 1024))))"
| "scanFiles [] totalSize = Some totalSize"
| "scanFiles ((file, filePath) # rest) totalSize =
     (if file = ''.'' \<or> file = ''..'' \<or> file = ''.git'' then scanFiles rest totalSize
      else
        (case statSync filePath of
           None \<Rightarrow> None
         | Some st \<Rightarrow>
             if isSymbolicLink st then scanFiles rest totalSize
             else if isDirectory st then
               scanFiles rest (totalSize + getTotalSizeInMB filePath * 1024 * 1024)
             else if isFile st then scanFiles rest (totalSize + of_nat (st_size st))
             else scanFiles rest totalSize))"
  by pat_completeness auto
termination
proof (relation "measure (\<lambda>x. case x of
           Inl n \<Rightarrow> 2 * size n
         | Inr (es, t) \<Rightarrow> 2 * size_list (size_prod (\<lambda>_. 0) size) es + 1)", goal_cases)
  case (2 dirPath files)
  then show ?case
    using resolve_Dir_size[of dirPath files]
    by (auto simp: readdirSync_def split: option.splits node.splits)
qed simp_all

text \<open>
  The aggregator as the specification words it (section 4.3): a byte count; entries
  named \<^verbatim>\<open>.\<close>, \<^verbatim>\<open>..\<close> or \<^verbatim>\<open>.git\<close> are skipped; a symbolic link is skipped without being
  followed; a directory adds its own total; a regular file adds its length; a root
  that cannot be listed counts zero.
\<close>

fun computeSize :: "node \<Rightarrow> nat"
  and computeEntries :: "(string \<times> node) list \<Rightarrow> nat" where
  "computeSize (Dir es) = computeEntries es"
| "computeSize (File k) = 0"
| "computeSize (Symlink t) = 0"
| "computeSize Special = 0"
| "computeSize Unreadable = 0"
| "computeEntries [] = 0"
| "computeEntries ((file, n) # rest) =
     (if file = ''.'' \<or> file = ''..'' \<or> file = ''.git'' then 0
      else (case n of
              Symlink t \<Rightarrow> 0
            | Dir es \<Rightarrow> computeSize n
            | File k \<Rightarrow> k
            | _ \<Rightarrow> 0))
     + computeEntries rest"

text \<open>
  A subtree that contains only directories and regular files of 1048576 or 2097152
  bytes.
\<close>

fun mbFilesOnly :: "node \<Rightarrow> bool"
  and mbEntriesOnly :: "(string \<times> node) list \<Rightarrow> bool" where
  "mbFilesOnly (File k) = (k = 1048576 \<or> k = 2097152)"
| "mbFilesOnly (Dir es) = mbEntriesOnly es"
| "mbFilesOnly (Symlink t) = False"
| "mbFilesOnly Special = False"
| "mbFilesOnly Unreadable = False"
| "mbEntriesOnly [] = True"
| "mbEntriesOnly ((file, n) # rest) = (mbFilesOnly n \<and> mbEntriesOnly rest)"

section \<open>The size report\<close>

text \<open>
  \<^verbatim>\<open>analyzeSize\<close> (lines 348 to 412), from \<^verbatim>\<open>Object.keys(result.dependencies)\<close> on: \<open>deps\<close> is
  that list of names, in its order. \<open>nodeModules dep\<close> is what stands at
  \<^verbatim>\<open>path.join(process.cwd(), "node_modules", dep)\<close>, \<open>None\<close> when nothing does.
\<close>

text \<open>The colour of a line: \<^verbatim>\<open>chalk.green\<close>, \<^verbatim>\<open>chalk.yellow\<close> or \<^verbatim>\<open>chalk.red\<close>.\<close>

datatype color = Green | Yellow | Red

definition sizeColor :: "rat \<Rightarrow> color" where
  "sizeColor sz = (if sz > 10 then Red else if sz > 5 then Yellow else Green)"

text \<open>
  The specification (section 4.4) names the three classes: above 10 MB "high", above
  5 MB up to 10 MB "medium", up to 5 MB "low".
\<close>

definition tier :: "color \<Rightarrow> string" where
  "tier c = (case c of Red \<Rightarrow> ''high'' | Yellow \<Rightarrow> ''medium'' | Green \<Rightarrow> ''low'')"

text \<open>The object \<^verbatim>\<open>{ name, size }\<close>; the size is a number of megabytes.\<close>

record pkg =
  pkg_name :: string
  pkg_size :: rat

text \<open>
  \<^verbatim>\<open>Array.prototype.sort\<close> with a comparison function. ECMAScript (2019 and later)
  requires the sort to be stable: \<open>a\<close> comes before \<open>b\<close> when \<open>cmp a b < 0\<close>, and
  elements that compare equal keep their order. A stable insertion sort computes that
  result.
\<close>

fun insertBy :: "('a \<Rightarrow> 'a \<Rightarrow> rat) \<Rightarrow> 'a \<Rightarrow> 'a list \<Rightarrow> 'a list" where
  "insertBy cmp a [] = [a]"
| "insertBy cmp a (b # bs) =
     (if cmp a b \<le> 0 then a # b # bs else b # insertBy cmp a bs)"

definition arraySort :: "('a \<Rightarrow> 'a \<Rightarrow> rat) \<Rightarrow> 'a list \<Rightarrow> 'a list" where
  "arraySort cmp xs = foldr (insertBy cmp) xs []"

text \<open>The comparison function \<^verbatim>\<open>(a, b) => b.size - a.size\<close>.\<close>

definition bySizeDesc :: "pkg \<Rightarrow> pkg \<Rightarrow> rat" where
  "bySizeDesc a b = pkg_size b - pkg_size a"

text \<open>The text of the \<^verbatim>\<open>console.warn\<close> for a package that is not installed.\<close>

definition notFound :: "string \<Rightarrow> string" where
  "notFound dep = ''Warning: '' @ dep @ '' not found in node_modules''"

text \<open>
  The callback of \<^verbatim>\<open>.map\<close>: the warning it prints, if any, and the object it returns.
\<close>

definition sizeRecord :: "(string \<Rightarrow> node option) \<Rightarrow> string \<Rightarrow> string option \<times> pkg" where
  "sizeRecord nodeModules dep =
     (case nodeModules dep of
        None \<Rightarrow> (Some (notFound dep), \<lparr>pkg_name = dep, pkg_size = 0\<rparr>)
      | Some depPath \<Rightarrow>
          if \<not> existsSync (Some depPath) then
            (Some (notFound dep), \<lparr>pkg_name = dep, pkg_size = 0\<rparr>)
          else (None, \<lparr>pkg_name = dep, pkg_size = getTotalSizeInMB depPath\<rparr>))"

text \<open>The array after \<^verbatim>\<open>.filter((pkg) => pkg.size > 0)\<close>, and after \<^verbatim>\<open>.sort\<close>.\<close>

definition nonZeroSizes :: "(string \<Rightarrow> node option) \<Rightarrow> string list \<Rightarrow> pkg list" where
  "nonZeroSizes nodeModules deps =
     filter (\<lambda>pkg. pkg_size pkg > 0) (map (\<lambda>dep. snd (sizeRecord nodeModules dep)) deps)"

definition packageSizes :: "(string \<Rightarrow> node option) \<Rightarrow> string list \<Rightarrow> pkg list" where
  "packageSizes nodeModules deps = arraySort bySizeDesc (nonZeroSizes nodeModules deps)"

text \<open>
  What the command prints: the warnings; one row per package with its name, its colour
  and \<^verbatim>\<open>size.toFixed(2)\<close>; the number of packages; \<^verbatim>\<open>totalSize.toFixed(2)\<close>. Padding
  and the fixed words of each line are left out.
\<close>

record sizeReport =
  warnings :: "string list"
  rows :: "(string \<times> color \<times> rat) list"
  totalPackages :: nat
  totalSizeShown :: rat

definition analyzeSize :: "(string \<Rightarrow> node option) \<Rightarrow> string list \<Rightarrow> sizeReport" where
  "analyzeSize nodeModules deps =
     \<lparr>warnings = List.map_filter (\<lambda>dep. fst (sizeRecord nodeModules dep)) deps,
      rows = map (\<lambda>p. (pkg_name p, sizeColor (pkg_size p), toFixed2 (pkg_size p)))
               (packageSizes nodeModules deps),
      totalPackages = length (packageSizes nodeModules deps),
      totalSizeShown =
        toFixed2 (foldl (\<lambda>sum p. sum + pkg_size p) 0 (packageSizes nodeModules deps))\<rparr>"

text \<open>
  The total as the specification words it (section 4.4): the sizes of the displayed
  records are added up before any rounding, as the byte counts of section 4.3, and the
  sum is rounded once, to two decimals of a megabyte, for display.
\<close>

definition totalRoundedOnce :: "(string \<Rightarrow> node option) \<Rightarrow> string list \<Rightarrow> rat" where
  "totalRoundedOnce nodeModules deps =
     toFixed2
       (of_nat (sum_list (map (\<lambda>p. case nodeModules (pkg_name p) of
                                      None \<Rightarrow> 0
                                    | Some depPath \<Rightarrow> computeSize depPath)
                              (packageSizes nodeModules deps)))
        / (1024 * 1024))"

text \<open>
  An installation used in the examples: \<^verbatim>\<open>pkgA\<close> holds 3 MB, \<^verbatim>\<open>pkgC\<close> and \<^verbatim>\<open>pkgE\<close> 1 MB
  each, \<^verbatim>\<open>pkgD\<close> 20 MB; \<^verbatim>\<open>pkgB\<close> is not installed. \<^verbatim>\<open>pkgF\<close>, \<^verbatim>\<open>pkgG\<close> and \<^verbatim>\<open>pkgH\<close> hold one
  file of 1054868 bytes each, which is 1.006 MB.
\<close>

definition exampleModules :: "string \<Rightarrow> node option" where
  "exampleModules =
     map_of [(''pkgA'', Dir [(''index.js'', File 3145728)]),
             (''pkgC'', Dir [(''a.js'', File 1048576)]),
             (''pkgD'', Dir [(''big.bin'', File 20971520)]),
             (''pkgE'', Dir [(''a.js'', File 1048576)]),
             (''pkgF'', Dir [(''index.js'', File 1054868)]),
             (''pkgG'', Dir [(''index.js'', File 1054868)]),
             (''pkgH'', Dir [(''index.js'', File 1054868)])]"

section \<open>The alternative matcher\<close>

text \<open>
  \<^verbatim>\<open>suggestAlternatives\<close> (lines 415 to 468). The table \<^verbatim>\<open>largeDeps\<close> is an object
  literal; its own properties, in the order of the source:
\<close>

definition largeDeps :: "(string \<times> string) list" where
  "largeDeps =
     [(''moment'', ''date-fns''),
      (''luxon'', ''dayjs''),
      (''lodash'', ''lodash-es''),
      (''ramda'', ''ramda-adjunct''),
      (''axios'', ''fetch''),
      (''superagent'', ''undici''),
      (''string.js'', ''string''),
      (''sprintf-js'', ''tiny-sprintf''),
      (''jquery'', ''vanilla JS''),
      (''zepto'', ''vanilla JS''),
      (''chart.js'', ''chartist''),
      (''d3'', ''chart.js''),
      (''validator'', ''is.js''),
      (''joi'', ''yup''),
      (''redux'', ''valtio''),
      (''mobx'', ''effector''),
      (''moment-timezone'', ''timezone-mock''),
      (''fullcalendar'', ''flatpickr''),
      (''animejs'', ''gsap''),
      (''socket.io'', ''ws''),
      (''react-router'', ''wouter''),
      (''highcharts'', ''chart.js''),
      (''plotly.js'', ''chartist''),
      (''dropzone'', ''fine-uploader''),
      (''mathjs'', ''decimal.js''),
      (''numeral'', ''vanilla JS''),
      (''sharp'', ''image-size''),
      (''fabric'', ''konva''),
      (''bootstrap'', ''bulma''),
      (''tailwindcss'', ''tachyons'')]"

text \<open>
  An object literal inherits from \<^verbatim>\<open>Object.prototype\<close>, and \<^verbatim>\<open>largeDeps[dep]\<close> finds an
  inherited property when the object has none of its own under that name. These are
  the properties of \<^verbatim>\<open>Object.prototype\<close>, each with the text a template literal makes of
  its value (a built-in function, or for \<^verbatim>\<open>__proto__\<close> the prototype object itself).
\<close>

definition objectPrototype :: "(string \<times> string) list" where
  "objectPrototype =
     [(''constructor'', ''function Object() { [native code] }''),
      (''__defineGetter__'', ''function __defineGetter__() { [native code] }''),
      (''__defineSetter__'', ''function __defineSetter__() { [native code] }''),
      (''hasOwnProperty'', ''function hasOwnProperty() { [native code] }''),
      (''__lookupGetter__'', ''function __lookupGetter__() { [native code] }''),
      (''__lookupSetter__'', ''function __lookupSetter__() { [native code] }''),
      (''isPrototypeOf'', ''function isPrototypeOf() { [native code] }''),
      (''propertyIsEnumerable'', ''function propertyIsEnumerable() { [native code] }''),
      (''toString'', ''function toString() { [native code] }''),
      (''valueOf'', ''function valueOf() { [native code] }''),
      (''__proto__'', ''[object Object]''),
      (''toLocaleString'', ''function toLocaleString() { [native code] }'')]"

text \<open>
  \<^verbatim>\<open>largeDeps[dep]\<close>: \<open>None\<close> is \<^verbatim>\<open>undefined\<close>; \<open>Some t\<close> is a value whose text in a
  template literal is \<open>t\<close>. Every value that can be found is truthy (a non-empty
  string, a function or an object).
\<close>

definition largeDepsAt :: "string \<Rightarrow> string option" where
  "largeDepsAt dep =
     (case map_of largeDeps dep of
        Some alt \<Rightarrow> Some alt
      | None \<Rightarrow> map_of objectPrototype dep)"

text \<open>
  The array \<^verbatim>\<open>suggestions\<close> after the \<^verbatim>\<open>forEach\<close> over \<^verbatim>\<open>Object.entries(root)\<close>.
  \<open>rootDeps\<close> is the list of the keys of \<^verbatim>\<open>root\<close>, the object \<^verbatim>\<open>result.dependencies\<close>,
  in that order.
\<close>

fun suggestions :: "string list \<Rightarrow> string list" where
  "suggestions [] = []"
| "suggestions (dep # rootDeps) =
     (case largeDepsAt dep of
        None \<Rightarrow> suggestions rootDeps
      | Some alt \<Rightarrow>
          (''Consider using '' @ alt @ '' instead of '' @ dep) # suggestions rootDeps)"

text \<open>The lines the command prints after its heading.\<close>

definition suggestAlternatives :: "string list \<Rightarrow> string list" where
  "suggestAlternatives rootDeps =
     (if length (suggestions rootDeps) = 0 then [''No suggestions at the moment.'']
      else suggestions rootDeps)"

text \<open>
  The matcher as the specification words it (section 4.5): one entry for every
  installed name that is a key of the table, in the order of the dependency set.
\<close>

definition tableSuggestions :: "(string \<times> string) list \<Rightarrow> string list \<Rightarrow> string list" where
  "tableSuggestions table rootDeps =
     concat (map (\<lambda>dep. case map_of table dep of
                           None \<Rightarrow> []
                         | Some alt \<Rightarrow> [''Consider using '' @ alt @ '' instead of '' @ dep])
                 rootDeps)"

section \<open>The tree renderer\<close>

text \<open>
  The renderer walks the value that \<^verbatim>\<open>JSON.parse\<close> made of the output of
  \<^verbatim>\<open>npm list --json\<close>. The model has the values the specified shape is made of:
  strings and objects, and \<^verbatim>\<open>null\<close>. An object is the list of its properties in the
  order in which they were created; for a parsed value that is the order of the members
  in the text, the order in which the package manager reported them. The keys of an
  object are distinct. A string is the list of its UTF-16 code units; the model has the
  units below 256. Numbers, booleans and arrays are left out.
\<close>

datatype json = JNull | JString string | JObject "(string \<times> json) list"

text \<open>
  The renderer has no \<^verbatim>\<open>throw\<close> of its own; what can fail in it is the language:
  reading a property of \<^verbatim>\<open>null\<close>, \<^verbatim>\<open>Object.entries(null)\<close>, and the conversion to text
  of an object that hides \<^verbatim>\<open>Object.prototype.toString\<close>. Each of them throws a
  \<^verbatim>\<open>TypeError\<close>.
\<close>

datatype error = TypeError

text \<open>The decimal numeral of an index, for the keys of the entries of a string.\<close>

definition digit :: "nat \<Rightarrow> char" where
  "digit d = ''0123456789'' ! d"

fun showNat :: "nat \<Rightarrow> string" where
  "showNat n = (if n < 10 then [digit n] else showNat (n div 10) @ [digit (n mod 10)])"

declare showNat.simps [simp del]

text \<open>
  An array index is a key that is the canonical decimal numeral of an integer from 0 to
  \<open>2^32 - 2\<close>: \<^verbatim>\<open>7\<close> and \<^verbatim>\<open>10\<close> are array indices; \<^verbatim>\<open>007\<close>, \<^verbatim>\<open>1.5\<close> and \<^verbatim>\<open>lodash\<close> are not.
  \<open>indexValue\<close> is the number a string of decimal digits denotes.
\<close>

definition indexValue :: "string \<Rightarrow> nat" where
  "indexValue key = foldl (\<lambda>n c. 10 * n + (of_char c - 48)) 0 key"

definition isArrayIndex :: "string \<Rightarrow> bool" where
  "isArrayIndex key =
     (key \<noteq> [] \<and> list_all (\<lambda>c. c \<in> set ''0123456789'') key \<and>
      (key = ''0'' \<or> hd key \<noteq> CHR ''0'') \<and> indexValue key < 4294967295)"

text \<open>
  The order in which the language enumerates the own properties of an object
  (\<^verbatim>\<open>Object.entries\<close>, \<^verbatim>\<open>Object.keys\<close>, \<^verbatim>\<open>for in\<close>): first the keys that are array indices,
  in ascending numeric order, then the other keys in the order of their creation.
\<close>

definition ownPropertyOrder :: "(string \<times> 'a) list \<Rightarrow> (string \<times> 'a) list" where
  "ownPropertyOrder es =
     sort_key (\<lambda>e. indexValue (fst e)) (filter (\<lambda>e. isArrayIndex (fst e)) es)
     @ filter (\<lambda>e. \<not> isArrayIndex (fst e)) es"

text \<open>
  \<^verbatim>\<open>Object.entries(v)\<close>: the entries of an object, in the order of enumeration; for a
  string, one entry per code unit, keyed by its index. \<^verbatim>\<open>Object.entries(null)\<close> throws:
  the caller tests for \<^verbatim>\<open>null\<close> first.
\<close>

definition objectEntries :: "json \<Rightarrow> (string \<times> json) list" where
  "objectEntries v =
     (case v of
        JObject es \<Rightarrow> ownPropertyOrder es
      | JString s \<Rightarrow> zip (map showNat [0..<length s]) (map (\<lambda>c. JString [c]) s)
      | JNull \<Rightarrow> [])"

text \<open>
  The property reads of the renderer, \<^verbatim>\<open>info.version\<close>, \<^verbatim>\<open>info.dependencies\<close> and
  \<^verbatim>\<open>depPackage.peerDependencies\<close>: \<open>None\<close> is \<^verbatim>\<open>undefined\<close>. Neither \<^verbatim>\<open>Object.prototype\<close> nor
  \<^verbatim>\<open>String.prototype\<close> has a property of one of these three names, so only an own
  property of an object is found. Reading a property of \<^verbatim>\<open>null\<close> throws: every caller
  tests for \<^verbatim>\<open>null\<close> first.
\<close>

definition getProp :: "json \<Rightarrow> string \<Rightarrow> json option" where
  "getProp v key =
     (case v of JObject es \<Rightarrow> map_of es key | JString s \<Rightarrow> None | JNull \<Rightarrow> None)"

text \<open>
  What \<^verbatim>\<open>if (v)\<close> and \<^verbatim>\<open>v || d\<close> test: \<^verbatim>\<open>undefined\<close>, \<^verbatim>\<open>null\<close> and the empty string are
  falsy.
\<close>

definition truthy :: "json option \<Rightarrow> bool" where
  "truthy v =
     (case v of
        None \<Rightarrow> False
      | Some JNull \<Rightarrow> False
      | Some (JString s) \<Rightarrow> s \<noteq> []
      | Some (JObject es) \<Rightarrow> True)"

text \<open>
  The text of a value inside a template literal or as the argument of a \<^verbatim>\<open>chalk\<close>
  style. An object is converted by the \<^verbatim>\<open>toString\<close> it inherits, unless it has an own
  property of that name: a parsed value is never a function, so then no conversion is
  left and a \<^verbatim>\<open>TypeError\<close> is thrown.
\<close>

definition toText :: "json \<Rightarrow> error + string" where
  "toText v =
     (case v of
        JNull \<Rightarrow> Inr ''null''
      | JString s \<Rightarrow> Inr s
      | JObject es \<Rightarrow>
          if ''toString'' \<in> fst ` set es then Inl TypeError else Inr ''[object Object]'')"

text \<open>
  A line written by \<^verbatim>\<open>console.log\<close>. \<open>NodeLine indent name version\<close> is the line of a
  package; \<open>PeerLine indent peer rng\<close> is a peer annotation, \<open>indent\<close> being all the
  blanks before its marker. \<open>lineText\<close> is the text of the line with the styling of
  \<^verbatim>\<open>chalk\<close> left out; the marker is the two box-drawing characters of the source, in
  UTF-8.
\<close>

datatype line = NodeLine string string string | PeerLine string string string

definition branchGlyph :: string where
  "branchGlyph = [CHR 0xE2, CHR 0x94, CHR 0x94, CHR 0xE2, CHR 0x94, CHR 0x80]"

definition lineText :: "line \<Rightarrow> string" where
  "lineText l =
     (case l of
        NodeLine indent name version \<Rightarrow> indent @ name @ ''@'' @ version
      | PeerLine indent peer rng \<Rightarrow>
          indent @ branchGlyph @ '' '' @ ''requires '' @ peer @ ''@'' @ rng)"

text \<open>\<^verbatim>\<open>"  ".repeat(level)\<close>.\<close>

definition repeatIndent :: "nat \<Rightarrow> string" where
  "repeatIndent level = concat (replicate level ''  '')"

text \<open>\<^verbatim>\<open>info.version || "unknown"\<close>.\<close>

definition versionOf :: "json \<Rightarrow> json" where
  "versionOf info =
     (case getProp info ''version'' of
        None \<Rightarrow> JString ''unknown''
      | Some v \<Rightarrow> if truthy (Some v) then v else JString ''unknown'')"

text \<open>
  The \<^verbatim>\<open>try\<close> block (lines 315 to 328). \<open>readManifest name\<close> is the value of
  \<^verbatim>\<open>JSON.parse(fs.readFileSync(depPath, "utf-8"))\<close> for the path
  \<^verbatim>\<open>node_modules/<name>/package.json\<close> under the working directory, \<open>None\<close> when reading
  or parsing throws. The \<^verbatim>\<open>catch\<close> swallows whatever is thrown inside the block: no
  line for a manifest that cannot be read or is \<^verbatim>\<open>null\<close>, and \<open>printPeers\<close>, the inner
  \<^verbatim>\<open>forEach\<close>, stops at the first range that has no text.
\<close>

fun printPeers :: "string \<Rightarrow> (string \<times> json) list \<Rightarrow> line list" where
  "printPeers indent [] = []"
| "printPeers indent ((peer, rng) # others) =
     (case toText rng of
        Inl e \<Rightarrow> []
      | Inr t \<Rightarrow> PeerLine (indent @ ''  '') peer t # printPeers indent others)"

definition peerLines :: "(string \<Rightarrow> json option) \<Rightarrow> string \<Rightarrow> string \<Rightarrow> line list" where
  "peerLines readManifest indent name =
     (case readManifest name of
        None \<Rightarrow> []
      | Some depPackage \<Rightarrow>
          if depPackage = JNull then []
          else
            (case getProp depPackage ''peerDependencies'' of
               None \<Rightarrow> []
             | Some peerDependencies \<Rightarrow>
                 if truthy (Some peerDependencies) then
                   printPeers indent (objectEntries peerDependencies)
                 else []))"

text \<open>
  The result of a call: \<open>Inr\<close> of the lines it printed, in order, when it returns;
  \<open>Inl TypeError\<close> when it throws (the lines printed before the throw are not kept).
  \<open>thenPrint a b\<close> is \<open>a\<close> followed by \<open>b\<close>.
\<close>

definition thenPrint :: "error + line list \<Rightarrow> error + line list \<Rightarrow> error + line list" where
  "thenPrint a b =
     (case a of
        Inl e \<Rightarrow> Inl e
      | Inr xs \<Rightarrow> (case b of Inl e \<Rightarrow> Inl e | Inr ys \<Rightarrow> Inr (xs @ ys)))"

text \<open>
  \<^verbatim>\<open>printDependencyTree\<close> (lines 296 to 335); \<open>printEntries\<close> is the \<^verbatim>\<open>forEach\<close> over
  \<^verbatim>\<open>Object.entries(deps)\<close>. \<^verbatim>\<open>info.version\<close> throws when \<open>info\<close> is \<^verbatim>\<open>null\<close>, and the
  line of a node throws when its version has no text. The recursion ends because
  every call descends into a part of the value; the entries of a string are keyed by
  numerals, never by \<^verbatim>\<open>dependencies\<close>, and have no properties.
\<close>

lemma digit_not_s: "d < 10 \<Longrightarrow> digit d \<noteq> CHR ''s''"
proof -
  assume "d < 10"
  then have "d \<in> {0, 1, 2, 3, 4, 5, 6, 7, 8, 9}" by auto
  then show ?thesis by (auto simp: digit_def)
qed

lemma showNat_last: "last (showNat n) = digit (n mod 10)"
  by (subst showNat.simps) simp

lemma showNat_not_dependencies: "showNat n \<noteq> ''dependencies''"
proof
  assume "showNat n = ''dependencies''"
  then have "last (showNat n) = CHR ''s''" by simp
  then show False using digit_not_s[of "n mod 10"] by (simp add: showNat_last)
qed

definition entryWeight :: "string \<times> json \<Rightarrow> nat" where
  "entryWeight e = size (snd e) + (if fst e = ''dependencies'' then 1 else 0)"

lemma weight_string_entries:
  "sum_list (map entryWeight (objectEntries (JString s))) = 0"
proof -
  have "entryWeight e = 0" if mem: "e \<in> set (objectEntries (JString s))" for e
  proof -
    obtain k v where e: "e = (k, v)" by (cases e)
    from mem e have "k \<in> set (map showNat [0..<length s])" "v \<in> set (map (\<lambda>c. JString [c]) s)"
      by (auto simp: objectEntries_def dest: set_zip_leftD set_zip_rightD)
    then show ?thesis
      using e showNat_not_dependencies by (auto simp: entryWeight_def)
  qed
  then show ?thesis by simp
qed

lemma weight_object: "sum_list (map entryWeight es) < size (JObject es)"
  by (induction es) (auto simp: entryWeight_def)

lemma mset_ownPropertyOrder: "mset (ownPropertyOrder es) = mset es"
  by (simp add: ownPropertyOrder_def)

lemma weight_ownPropertyOrder:
  "sum_list (map entryWeight (ownPropertyOrder es)) = sum_list (map entryWeight es)"
proof -
  have "sum_list (map entryWeight xs) = sum_mset (image_mset entryWeight (mset xs))" for xs
    by (simp flip: sum_mset_sum_list)
  then show ?thesis by (simp add: mset_ownPropertyOrder)
qed

lemma weight_prop: "map_of es key = Some d \<Longrightarrow> size d < Suc (size_list (size_prod (\<lambda>_. 0) size) es)"
  by (induction es) (auto split: if_splits)

function printDependencyTree :: "(string \<Rightarrow> json option) \<Rightarrow> json \<Rightarrow> nat \<Rightarrow> error + line list"
  and printEntries :: "(string \<Rightarrow> json option) \<Rightarrow> (string \<times> json) list \<Rightarrow> nat \<Rightarrow> error + line list" where
  "printDependencyTree readManifest deps level =
     (if deps = JNull then Inl TypeError
      else printEntries readManifest (objectEntries deps) level)"
| "printEntries readManifest [] level = Inr []"
| "printEntries readManifest ((name, info) # rest) level =
     thenPrint
       (if name = ''dependencies'' then printDependencyTree readManifest info level
        else if info = JNull then Inl TypeError
        else
          (case toText (versionOf info) of
             Inl e \<Rightarrow> Inl e
           | Inr version \<Rightarrow>
               thenPrint
                 (Inr (NodeLine (repeatIndent level) name version
                       # peerLines readManifest (repeatIndent level) name))
                 (case getProp info ''dependencies'' of
                    None \<Rightarrow> Inr []
                  | Some dependencies \<Rightarrow>
                      if truthy (Some dependencies) then
                        printDependencyTree readManifest dependencies (level + 1)
                      else Inr [])))
       (printEntries readManifest rest level)"
  by pat_completeness auto
termination
proof (relation "inv_image (less_than <*lex*> less_than)
     (\<lambda>x. case x of
        Inl (m, deps, level) \<Rightarrow> (size deps, 1 + length (objectEntries deps))
      | Inr (m, es, level) \<Rightarrow> (sum_list (map entryWeight es), length es))", goal_cases)
  case 1
  show ?case by (intro wf_inv_image wf_lex_prod wf_less_than)
next
  case (2 readManifest deps level)
  show ?case
  proof (cases deps)
    case JNull
    with 2 show ?thesis by simp
  next
    case (JString s)
    then show ?thesis using weight_string_entries[of s] by simp
  next
    case (JObject es)
    then show ?thesis
      using weight_object[of es] by (simp add: objectEntries_def weight_ownPropertyOrder)
  qed
next
  case (3 readManifest name info rest level)
  then show ?case by (simp add: entryWeight_def)
next
  case (4 readManifest name info rest level version dependencies)
  then obtain es where "info = JObject es" "map_of es ''dependencies'' = Some dependencies"
    by (cases info) (auto simp: getProp_def)
  then show ?case using weight_prop[of es "''dependencies''" dependencies]
    by (simp add: entryWeight_def)
next
  case (5 readManifest name info rest level)
  show ?case by (auto simp: entryWeight_def)
qed

text \<open>
  \<^verbatim>\<open>visualizeTree\<close> prints the line of the project itself, from its own manifest, and
  then calls \<^verbatim>\<open>printDependencyTree(result)\<close> with level 0, \<^verbatim>\<open>result\<close> being the whole
  object that \<^verbatim>\<open>npm list --json\<close> reports: the direct dependencies stand at depth 0,
  without indentation.
\<close>

subsection \<open>The tree of the specification\<close>

text \<open>
  A package node of section 3 of the specification: its name, its version if the
  field is there, the other fields of its object, and its dependencies if the field is
  there.
\<close>

datatype pkgTree = Pkg string "string option" "(string \<times> json) list" "pkgTree list option"

fun treeName :: "pkgTree \<Rightarrow> string" where
  "treeName (Pkg name version other deps) = name"

text \<open>
  The object the package manager reports for a node, and the object of a child set:
  \<^verbatim>\<open>{name: {version, ..., dependencies}}\<close>.
\<close>

fun infoJson :: "pkgTree \<Rightarrow> json"
  and depsEntries :: "pkgTree list \<Rightarrow> (string \<times> json) list" where
  "infoJson (Pkg name version other deps) =
     JObject
       ((case version of None \<Rightarrow> [] | Some v \<Rightarrow> [(''version'', JString v)])
        @ other
        @ (case deps of
             None \<Rightarrow> []
           | Some ts \<Rightarrow> [(''dependencies'', JObject (depsEntries ts))]))"
| "depsEntries [] = []"
| "depsEntries (t # ts) = (treeName t, infoJson t) # depsEntries ts"

text \<open>
  The input of the renderer for a project with the direct dependencies \<open>ts\<close>, in the
  shape of section 4.1 of the specification: \<^verbatim>\<open>{dependencies: {...}}\<close>.
\<close>

definition rootJson :: "pkgTree list \<Rightarrow> json" where
  "rootJson ts = JObject [(''dependencies'', JObject (depsEntries ts))]"

text \<open>The number of nodes.\<close>

fun nodeCount :: "pkgTree \<Rightarrow> nat"
  and forestCount :: "pkgTree list \<Rightarrow> nat" where
  "nodeCount (Pkg name version other deps) =
     1 + (case deps of None \<Rightarrow> 0 | Some ts \<Rightarrow> forestCount ts)"
| "forestCount [] = 0"
| "forestCount (t # ts) = nodeCount t + forestCount ts"

text \<open>
  The peer dependencies a package declares in its manifest on disk, each with the text
  of its range (up to the first range that has no text).
\<close>

fun peerTexts :: "(string \<times> json) list \<Rightarrow> (string \<times> string) list" where
  "peerTexts [] = []"
| "peerTexts ((peer, rng) # others) =
     (case toText rng of Inl e \<Rightarrow> [] | Inr t \<Rightarrow> (peer, t) # peerTexts others)"

definition declaredPeers :: "(string \<Rightarrow> json option) \<Rightarrow> string \<Rightarrow> (string \<times> string) list" where
  "declaredPeers readManifest name =
     (case readManifest name of
        None \<Rightarrow> []
      | Some depPackage \<Rightarrow>
          (case getProp depPackage ''peerDependencies'' of
             None \<Rightarrow> []
           | Some peers \<Rightarrow> if truthy (Some peers) then peerTexts (objectEntries peers) else []))"

text \<open>
  The output section 4.2 of the specification describes: depth first, parents before
  children, children in the reported order; the line of a node at depth \<open>d\<close> is
  indented by \<open>2 * d\<close> blanks and shows the version, or \<^verbatim>\<open>unknown\<close> when there is none;
  right after it comes one annotation per declared peer, indented by \<open>2 * (d + 1)\<close>
  blanks; then the children at depth \<open>d + 1\<close>.
\<close>

fun renderNode :: "(string \<Rightarrow> json option) \<Rightarrow> nat \<Rightarrow> pkgTree \<Rightarrow> line list"
  and renderForest :: "(string \<Rightarrow> json option) \<Rightarrow> nat \<Rightarrow> pkgTree list \<Rightarrow> line list" where
  "renderNode readManifest d (Pkg name version other deps) =
     NodeLine (replicate (2 * d) CHR '' '') name
       (case version of None \<Rightarrow> ''unknown'' | Some v \<Rightarrow> v)
     # map (\<lambda>(peer, rng). PeerLine (replicate (2 * (d + 1)) CHR '' '') peer rng)
         (declaredPeers readManifest name)
     @ (case deps of None \<Rightarrow> [] | Some ts \<Rightarrow> renderForest readManifest (d + 1) ts)"
| "renderForest readManifest d [] = []"
| "renderForest readManifest d (t # ts) =
     renderNode readManifest d t @ renderForest readManifest d ts"

text \<open>The number of peer annotations due: one per peer declared, for every node.\<close>

fun peerCount :: "(string \<Rightarrow> json option) \<Rightarrow> pkgTree \<Rightarrow> nat"
  and forestPeerCount :: "(string \<Rightarrow> json option) \<Rightarrow> pkgTree list \<Rightarrow> nat" where
  "peerCount readManifest (Pkg name version other deps) =
     length (declaredPeers readManifest name)
     + (case deps of None \<Rightarrow> 0 | Some ts \<Rightarrow> forestPeerCount readManifest ts)"
| "forestPeerCount readManifest [] = 0"
| "forestPeerCount readManifest (t # ts) =
     peerCount readManifest t + forestPeerCount readManifest ts"

text \<open>
  The trees on which the renderer prints what section 4.2 describes: no package is
  itself named \<^verbatim>\<open>dependencies\<close> or by an array index; a version that is present is not
  the empty string; the other fields of a node are not called \<^verbatim>\<open>version\<close> or
  \<^verbatim>\<open>dependencies\<close>.
\<close>

fun wellShaped :: "pkgTree \<Rightarrow> bool"
  and wellShapedForest :: "pkgTree list \<Rightarrow> bool" where
  "wellShaped (Pkg name version other deps) =
     (name \<noteq> ''dependencies'' \<and> \<not> isArrayIndex name \<and> version \<noteq> Some [] \<and>
      ''version'' \<notin> fst ` set other \<and> ''dependencies'' \<notin> fst ` set other \<and>
      (case deps of None \<Rightarrow> True | Some ts \<Rightarrow> wellShapedForest ts))"
| "wellShapedForest [] = True"
| "wellShapedForest (t # ts) = (wellShaped t \<and> wellShapedForest ts)"

text \<open>
  The lines of the nodes alone, as section 4.2 orders them: every position of the tree
  has its own line, with its own name and version, parents before children, children
  in the reported order.
\<close>

fun positions :: "nat \<Rightarrow> pkgTree \<Rightarrow> line list"
  and forestPositions :: "nat \<Rightarrow> pkgTree list \<Rightarrow> line list" where
  "positions d (Pkg name version other deps) =
     NodeLine (replicate (2 * d) CHR '' '') name
       (case version of None \<Rightarrow> ''unknown'' | Some v \<Rightarrow> v)
     # (case deps of None \<Rightarrow> [] | Some ts \<Rightarrow> forestPositions (d + 1) ts)"
| "forestPositions d [] = []"
| "forestPositions d (t # ts) = positions d t @ forestPositions d ts"

fun isNodeLine :: "line \<Rightarrow> bool" where
  "isNodeLine (NodeLine indent name version) = True"
| "isNodeLine (PeerLine indent peer rng) = False"

fun isPeerLine :: "line \<Rightarrow> bool" where
  "isPeerLine (NodeLine indent name version) = False"
| "isPeerLine (PeerLine indent peer rng) = True"

text \<open>
  The peer annotations of a block of output: the peer and range of each annotation that
  follows the first line of the block directly.
\<close>

definition peerAnnotations :: "line list \<Rightarrow> (string \<times> string) list" where
  "peerAnnotations block =
     concat (map (\<lambda>l. case l of
                        PeerLine indent peer rng \<Rightarrow> [(peer, rng)]
                      | NodeLine indent name version \<Rightarrow> [])
                 (takeWhile isPeerLine (tl block)))"



text \<open>A manifest store and a tree used in the examples.\<close>

definition exampleManifests :: "string \<Rightarrow> json option" where
  "exampleManifests =
     map_of [(''react-dom'',
              JObject [(''name'', JString ''react-dom''),
                       (''peerDependencies'', JObject [(''react'', JString ''^18.0.0'')])])]"

definition exampleTree :: "pkgTree list" where
  "exampleTree =
     [Pkg ''axios'' (Some ''1.6.0'') [(''resolved'', JString ''https://registry.npmjs.org/axios'')]
        (Some [Pkg ''lodash'' (Some ''3.10.1'') [] None,
               Pkg ''react-dom'' (Some ''17.0.2'') [] None]),
      Pkg ''react-dom'' (Some ''18.2.0'') [] (Some []),
      Pkg ''lodash'' (Some ''4.17.21'') [] None,
      Pkg ''left-pad'' None [] None]"

section \<open>Properties of the size aggregator\<close>

subsection \<open>Evaluating the rounding\<close>

lemma floor_rat_numeral:
  "\<lfloor>(numeral a :: rat) / numeral b\<rfloor> = numeral a div numeral b"
  using floor_divide_of_int_eq[of "numeral a" "numeral b", where ?'a = rat] by simp

lemma floor_rat_one_numeral: "\<lfloor>(1 :: rat) / numeral b\<rfloor> = 1 div numeral b"
  using floor_divide_of_int_eq[of 1 "numeral b", where ?'a = rat] by simp

lemmas eval_size =
  statSync_def readdirSync_def toFixed2_def floor_rat_numeral floor_rat_one_numeral

lemma toFixed2_of_nat: "toFixed2 (of_nat k) = of_nat k"
proof -
  have "\<lfloor>(of_nat k :: rat) * 100 + 1 / 2\<rfloor> = int k * 100"
    by (rule floor_unique) simp_all
  then show ?thesis
    by (simp add: toFixed2_def)
qed

subsection \<open>Exactness on whole megabytes\<close>

text \<open>
  On a subtree of directories and files of 1048576 or 2097152 bytes every directory
  total is a whole number of megabytes, so the two-decimal rounding at each directory
  loses nothing: the aggregator returns the byte count divided by 1048576.
\<close>

lemma exact_mb:
  "(mbFilesOnly dirPath \<longrightarrow>
      (\<exists>k. computeSize dirPath = k * 1048576 \<and> getTotalSizeInMB dirPath = of_nat k))"
  "(mbEntriesOnly files \<longrightarrow>
      (\<exists>k. computeEntries files = k * 1048576 \<and>
           scanFiles files totalSize = Some (totalSize + of_nat k * 1048576)))"
proof (induction dirPath and files totalSize rule: getTotalSizeInMB_scanFiles.induct)
  case (1 dirPath)
  show ?case
  proof (cases dirPath)
    case (File k)
    then show ?thesis by (simp add: readdirSync_def)
  next
    case (Dir es)
    show ?thesis
    proof
      assume mb: "mbFilesOnly dirPath"
      have rd: "readdirSync dirPath = Some es" using Dir by (simp add: readdirSync_def)
      from mb Dir have "mbEntriesOnly es" by simp
      with 1[OF rd] obtain k where k: "computeEntries es = k * 1048576"
        "scanFiles es 0 = Some (0 + of_nat k * 1048576)" by blast
      have "getTotalSizeInMB dirPath = toFixed2 (of_nat k)"
        using rd k by simp
      then show "\<exists>k. computeSize dirPath = k * 1048576 \<and> getTotalSizeInMB dirPath = of_nat k"
        using k Dir by (auto simp: toFixed2_of_nat)
    qed
  qed simp_all
next
  case (2 totalSize)
  then show ?case by simp
next
  case (3 f p rest total)
  show ?case
  proof
    assume mb: "mbEntriesOnly ((f, p) # rest)"
    then have mbp: "mbFilesOnly p" and mbr: "mbEntriesOnly rest" by simp_all
    show "\<exists>k. computeEntries ((f, p) # rest) = k * 1048576 \<and>
           scanFiles ((f, p) # rest) total = Some (total + of_nat k * 1048576)"
    proof (cases "f = ''.'' \<or> f = ''..'' \<or> f = ''.git''")
      case True
      with 3(1) mbr obtain k where "computeEntries rest = k * 1048576"
        "scanFiles rest total = Some (total + of_nat k * 1048576)" by blast
      with True show ?thesis by auto
    next
      case False
      show ?thesis
      proof (cases p)
        case (File n)
        let ?st = "\<lparr>isSymbolicLink = False, isDirectory = False, isFile = True, st_size = n\<rparr>"
        have st: "statSync p = Some ?st" using File by (simp add: statSync_def)
        have "mbEntriesOnly rest \<longrightarrow>
           (\<exists>k. computeEntries rest = k * 1048576 \<and>
             scanFiles rest (total + of_nat n) = Some (total + of_nat n + of_nat k * 1048576))"
          using 3(5)[OF False st] by simp
        with mbr
        obtain k where k: "computeEntries rest = k * 1048576"
          "scanFiles rest (total + of_nat n) = Some (total + of_nat n + of_nat k * 1048576)"
          by auto
        from mbp File obtain j where j: "n = j * 1048576" by auto
        have "computeEntries ((f, p) # rest) = (j + k) * 1048576"
          using False File k j by (simp add: algebra_simps)
        moreover have "scanFiles ((f, p) # rest) total = Some (total + of_nat (j + k) * 1048576)"
          using False st k j by (simp add: algebra_simps)
        ultimately show ?thesis by blast
      next
        case (Dir es)
        let ?st = "\<lparr>isSymbolicLink = False, isDirectory = True, isFile = False, st_size = 4096\<rparr>"
        have st: "statSync p = Some ?st" using Dir by (simp add: statSync_def)
        have "mbFilesOnly p \<longrightarrow>
           (\<exists>k. computeSize p = k * 1048576 \<and> getTotalSizeInMB p = of_nat k)"
          using 3(3)[OF False st] by simp
        with mbp
        obtain j where j: "computeSize p = j * 1048576" "getTotalSizeInMB p = of_nat j"
          by auto
        have "mbEntriesOnly rest \<longrightarrow>
           (\<exists>k. computeEntries rest = k * 1048576 \<and>
             scanFiles rest (total + getTotalSizeInMB p * 1024 * 1024) =
               Some (total + getTotalSizeInMB p * 1024 * 1024 + of_nat k * 1048576))"
          using 3(4)[OF False st] by simp
        with mbr
        obtain k where k: "computeEntries rest = k * 1048576"
          "scanFiles rest (total + getTotalSizeInMB p * 1024 * 1024) =
             Some (total + getTotalSizeInMB p * 1024 * 1024 + of_nat k * 1048576)"
          by auto
        have "computeEntries ((f, p) # rest) = (j + k) * 1048576"
          using False Dir k j by (simp add: algebra_simps)
        moreover have "scanFiles ((f, p) # rest) total = Some (total + of_nat (j + k) * 1048576)"
          using False st k j by (simp add: algebra_simps)
        ultimately show ?thesis by blast
      qed (use mbp in simp_all)
    qed
  qed
qed

text \<open>
  C1 (as amended). The aggregator returns a size in megabytes, not a byte count. For
  every subtree that contains only directories and regular files of 1048576 or
  2097152 bytes the value is exact: it is the total byte count, as section 4.3 of the
  specification defines it, divided by 1048576.
\<close>

theorem getTotalSizeInMB_exact_on_megabyte_files:
  "mbFilesOnly dirPath \<Longrightarrow>
     getTotalSizeInMB dirPath = of_nat (computeSize dirPath) / (1024 * 1024)"
  using exact_mb(1)[of dirPath] by auto

text \<open>One file of each size, 3145728 bytes together, is reported as 3.00 MB.\<close>

theorem getTotalSizeInMB_exact_on_megabyte_files_witness:
  "mbFilesOnly (Dir [(''a.bin'', File 1048576), (''b.bin'', File 2097152)]) \<and>
   computeSize (Dir [(''a.bin'', File 1048576), (''b.bin'', File 2097152)]) = 3145728 \<and>
   getTotalSizeInMB (Dir [(''a.bin'', File 1048576), (''b.bin'', File 2097152)]) = 3"
  using getTotalSizeInMB_exact_on_megabyte_files
    [of "Dir [(''a.bin'', File 1048576), (''b.bin'', File 2097152)]"]
  by simp

text \<open>
  C1 as stated fails: for the two files the result is 3 (megabytes), not 3145728; and
  the total is rounded at every directory, so a 1000-byte file in a subdirectory is
  lost on the way up.
\<close>

theorem getTotalSizeInMB_not_bytes_counterexample:
  "getTotalSizeInMB (Dir [(''a.bin'', File 1048576), (''b.bin'', File 2097152)]) \<noteq> 3145728 \<and>
   computeSize (Dir [(''lib'', Dir [(''index.js'', File 1000)])]) = 1000 \<and>
   getTotalSizeInMB (Dir [(''lib'', Dir [(''index.js'', File 1000)])]) = 0"
  by (simp add: eval_size)

text \<open>
  C2. The claim: a symbolic link inside the scanned subtree is skipped and adds zero
  bytes. The scan asks \<^verbatim>\<open>statSync\<close>, which follows the link, so its
  \<^verbatim>\<open>isSymbolicLink()\<close> branch is never taken: a link to a 1 MB file adds 1 MB (the
  specification's count is 0), a link to a directory is scanned like the directory,
  and a dangling link throws and turns the whole directory into 0.
\<close>

theorem getTotalSizeInMB_follows_symlinks:
  "getTotalSizeInMB (Dir [(''link'', Symlink (Some (File 1048576)))]) = 1 \<and>
   computeSize (Dir [(''link'', Symlink (Some (File 1048576)))]) = 0 \<and>
   getTotalSizeInMB (Dir [(''up'', Symlink (Some (Dir [(''big.bin'', File 5242880)])))]) = 5 \<and>
   getTotalSizeInMB (Dir [(''a.bin'', File 1048576), (''gone'', Symlink None)]) = 0"
  by (simp add: eval_size)

section \<open>Properties of the size report\<close>

subsection \<open>The sort\<close>

lemma mset_insertBy: "mset (insertBy cmp a bs) = add_mset a (mset bs)"
  by (induction bs) auto

lemma mset_arraySort: "mset (arraySort cmp xs) = mset xs"
  by (induction xs) (auto simp: arraySort_def mset_insertBy)

lemma set_arraySort: "set (arraySort cmp xs) = set xs"
  using mset_arraySort[of cmp xs] by (metis set_mset_mset)

lemma length_arraySort: "length (arraySort cmp xs) = length xs"
  using mset_arraySort[of cmp xs] by (metis size_mset)

lemma set_insertBy: "set (insertBy cmp a bs) = insert a (set bs)"
  using mset_insertBy[of cmp a bs] by (metis set_mset_add_mset_insert set_mset_mset)

lemma sorted_insertBy:
  "sorted_wrt (\<lambda>a b. pkg_size b \<le> pkg_size a) bs \<Longrightarrow>
   sorted_wrt (\<lambda>a b. pkg_size b \<le> pkg_size a) (insertBy bySizeDesc a bs)"
proof (induction bs)
  case Nil
  then show ?case by simp
next
  case (Cons b bs)
  show ?case
  proof (cases "bySizeDesc a b \<le> 0")
    case True
    then have "pkg_size b \<le> pkg_size a" by (simp add: bySizeDesc_def)
    with Cons.prems True show ?thesis by auto
  next
    case False
    then have "pkg_size a \<le> pkg_size b" by (simp add: bySizeDesc_def)
    with Cons False show ?thesis by (auto simp: set_insertBy)
  qed
qed

lemma sorted_arraySort:
  "sorted_wrt (\<lambda>a b. pkg_size b \<le> pkg_size a) (arraySort bySizeDesc xs)"
  by (induction xs) (auto simp: arraySort_def sorted_insertBy)

lemma filter_insertBy:
  "sorted_wrt (\<lambda>a b. pkg_size b \<le> pkg_size a) bs \<Longrightarrow>
   filter (\<lambda>p. pkg_size p = s) (insertBy bySizeDesc a bs) =
     (if pkg_size a = s then a # filter (\<lambda>p. pkg_size p = s) bs
      else filter (\<lambda>p. pkg_size p = s) bs)"
proof (induction bs)
  case Nil
  then show ?case by simp
next
  case (Cons b bs)
  show ?case
  proof (cases "bySizeDesc a b \<le> 0")
    case True
    then show ?thesis by simp
  next
    case False
    then have "pkg_size a < pkg_size b" by (simp add: bySizeDesc_def)
    with Cons False show ?thesis by auto
  qed
qed

lemma filter_arraySort:
  "filter (\<lambda>p. pkg_size p = s) (arraySort bySizeDesc xs) = filter (\<lambda>p. pkg_size p = s) xs"
proof (induction xs)
  case Nil
  then show ?case by (simp add: arraySort_def)
next
  case (Cons x xs)
  have "arraySort bySizeDesc (x # xs) = insertBy bySizeDesc x (arraySort bySizeDesc xs)"
    by (simp add: arraySort_def)
  with Cons show ?case
    by (simp add: filter_insertBy[OF sorted_arraySort])
qed

subsection \<open>Sizes are hundredths of a megabyte\<close>

lemma toFixed2_centi: "toFixed2 (of_int k / 100) = of_int k / 100"
proof -
  have "\<lfloor>(of_int k :: rat) / 100 * 100 + 1 / 2\<rfloor> = k"
    by (rule floor_unique) simp_all
  then show ?thesis by (simp add: toFixed2_def)
qed

lemma getTotalSizeInMB_centi: "\<exists>k. getTotalSizeInMB p = of_int k / 100"
proof -
  have "\<exists>k. toFixed2 x = of_int k / 100" for x
    by (auto simp: toFixed2_def)
  moreover have "\<exists>k. (0::rat) = of_int k / 100"
    by (rule exI[of _ 0]) simp
  ultimately show ?thesis
    by (simp split: option.splits)
qed

lemma sizeRecord_centi: "\<exists>k. pkg_size (snd (sizeRecord nm dep)) = of_int k / 100"
proof (cases "nm dep")
  case None
  have "pkg_size (snd (sizeRecord nm dep)) = of_int 0 / 100"
    using None by (simp add: sizeRecord_def)
  then show ?thesis by blast
next
  case (Some depPath)
  show ?thesis
  proof (cases "existsSync (Some depPath)")
    case True
    then show ?thesis
      using Some getTotalSizeInMB_centi[of depPath] by (simp add: sizeRecord_def)
  next
    case False
    have "pkg_size (snd (sizeRecord nm dep)) = of_int 0 / 100"
      using Some False by (simp add: sizeRecord_def)
    then show ?thesis by blast
  qed
qed

lemma sum_centi:
  "(\<And>p. p \<in> set ps \<Longrightarrow> \<exists>k. pkg_size p = of_int k / 100) \<Longrightarrow>
   \<exists>k. sum_list (map pkg_size ps) = of_int k / 100"
proof (induction ps)
  case Nil
  show ?case by (rule exI[of _ 0]) simp
next
  case (Cons p ps)
  then obtain j k where "pkg_size p = of_int j / 100" "sum_list (map pkg_size ps) = of_int k / 100"
    by (metis list.set_intros(1) list.set_intros(2))
  then have "sum_list (map pkg_size (p # ps)) = of_int (j + k) / 100"
    by (simp add: add_divide_distrib)
  then show ?case by blast
qed

lemma foldl_sum: "foldl (\<lambda>sum p. sum + pkg_size p) acc ps = acc + sum_list (map pkg_size ps)"
  by (induction ps arbitrary: acc) (auto simp: algebra_simps)

lemma packageSizes_centi: "p \<in> set (packageSizes nm deps) \<Longrightarrow> \<exists>k. pkg_size p = of_int k / 100"
  using sizeRecord_centi by (auto simp: packageSizes_def set_arraySort nonZeroSizes_def)

lemma sizeRecord_name: "pkg_name (snd (sizeRecord nm dep)) = dep"
  by (simp add: sizeRecord_def split: option.splits)

lemma sizeRecord_missing:
  "\<not> existsSync (nm dep) \<Longrightarrow>
   sizeRecord nm dep = (Some (notFound dep), \<lparr>pkg_name = dep, pkg_size = 0\<rparr>)"
  by (cases "nm dep") (simp_all add: sizeRecord_def notFound_def)

lemma sizeRecord_present:
  "existsSync (nm dep) \<Longrightarrow> fst (sizeRecord nm dep) = None"
  by (cases "nm dep") (simp_all add: sizeRecord_def existsSync_def)

lemma warnings_eq:
  "List.map_filter (\<lambda>dep. fst (sizeRecord nm dep)) deps =
   map notFound (filter (\<lambda>dep. \<not> existsSync (nm dep)) deps)"
proof (induction deps)
  case Nil
  show ?case by simp
next
  case (Cons d deps)
  then show ?case
    by (cases "existsSync (nm d)")
       (simp_all add: sizeRecord_missing sizeRecord_present)
qed

lemma toFixed2_nonneg: "0 \<le> x \<Longrightarrow> 0 \<le> toFixed2 x"
proof -
  assume "0 \<le> x"
  then have "0 \<le> x * 100 + 1 / 2" by simp
  then have "0 \<le> \<lfloor>x * 100 + 1 / 2\<rfloor>" by simp
  then show ?thesis by (simp add: toFixed2_def)
qed

lemma scan_nonneg:
  "0 \<le> getTotalSizeInMB dirPath"
  "0 \<le> totalSize \<longrightarrow> (\<forall>t. scanFiles files totalSize = Some t \<longrightarrow> 0 \<le> t)"
proof (induction dirPath and files totalSize rule: getTotalSizeInMB_scanFiles.induct)
  case (1 dirPath)
  show ?case
  proof (cases "readdirSync dirPath")
    case None
    then show ?thesis by simp
  next
    case (Some files)
    show ?thesis
    proof (cases "scanFiles files 0")
      case None
      with Some show ?thesis by simp
    next
      case (Some t)
      with 1[OF \<open>readdirSync dirPath = Some files\<close>] have "0 \<le> t" by simp
      then have "0 \<le> toFixed2 (t / (1024 * 1024))" by (intro toFixed2_nonneg) simp
      with Some \<open>readdirSync dirPath = Some files\<close> show ?thesis by simp
    qed
  qed
next
  case (2 totalSize)
  show ?case by simp
next
  case (3 f p rest total)
  show ?case
  proof (intro impI allI)
    fix t
    assume tot: "0 \<le> total" and sc: "scanFiles ((f, p) # rest) total = Some t"
    show "0 \<le> t"
    proof (cases "f = ''.'' \<or> f = ''..'' \<or> f = ''.git''")
      case True
      then have "scanFiles rest total = Some t" using sc by simp
      with 3(1)[OF True] tot show ?thesis by blast
    next
      case False
      show ?thesis
      proof (cases "statSync p")
        case None
        with False sc show ?thesis by simp
      next
        case (Some st)
        note ih = 3(2-6)[OF False Some]
        have step: "scanFiles ((f, p) # rest) total =
            (if isSymbolicLink st then scanFiles rest total
             else if isDirectory st then
               scanFiles rest (total + getTotalSizeInMB p * 1024 * 1024)
             else if isFile st then scanFiles rest (total + of_nat (st_size st))
             else scanFiles rest total)"
          using False Some by simp
        show ?thesis
        proof (cases "isSymbolicLink st")
          case True
          then have "scanFiles rest total = Some t" using sc step by simp
          with ih(1)[OF True] tot show ?thesis by blast
        next
          case nosym: False
          show ?thesis
          proof (cases "isDirectory st")
            case True
            have "0 \<le> getTotalSizeInMB p" using ih(2)[OF nosym True] .
            then have "0 \<le> total + getTotalSizeInMB p * 1024 * 1024" using tot by simp
            moreover have "scanFiles rest (total + getTotalSizeInMB p * 1024 * 1024) = Some t"
              using sc step nosym True by simp
            ultimately show ?thesis using ih(3)[OF nosym True] by blast
          next
            case nodir: False
            show ?thesis
            proof (cases "isFile st")
              case True
              have "0 \<le> total + of_nat (st_size st)" using tot by simp
              moreover have "scanFiles rest (total + of_nat (st_size st)) = Some t"
                using sc step nosym nodir True by simp
              ultimately show ?thesis using ih(4)[OF nosym nodir True] by blast
            next
              case nofile: False
              then have "scanFiles rest total = Some t" using sc step nosym nodir by simp
              with ih(5)[OF nosym nodir nofile] tot show ?thesis by blast
            qed
          qed
        qed
      qed
    qed
  qed
qed

lemma sizeRecord_nonneg: "0 \<le> pkg_size (snd (sizeRecord nm dep))"
  using scan_nonneg(1) by (simp add: sizeRecord_def split: option.splits)

lemma nonZeroSizes_alt:
  "nonZeroSizes nm deps =
     filter (\<lambda>p. pkg_size p \<noteq> 0) (map (\<lambda>dep. snd (sizeRecord nm dep)) deps)"
proof -
  have "(0 < pkg_size (snd (sizeRecord nm dep))) = (pkg_size (snd (sizeRecord nm dep)) \<noteq> 0)" for dep
    using sizeRecord_nonneg[of nm dep] by auto
  then show ?thesis
    by (simp add: nonZeroSizes_def filter_map comp_def)
qed

lemma missing_not_listed:
  assumes "\<not> existsSync (nm dep)"
  shows "dep \<notin> pkg_name ` set (packageSizes nm deps)"
proof
  assume "dep \<in> pkg_name ` set (packageSizes nm deps)"
  then obtain p where p: "p \<in> set (nonZeroSizes nm deps)" "pkg_name p = dep"
    by (auto simp: packageSizes_def set_arraySort)
  then obtain d where d: "p = snd (sizeRecord nm d)" "0 < pkg_size p"
    by (auto simp: nonZeroSizes_def)
  with p have "d = dep" by (simp add: sizeRecord_name)
  with d assms show False by (simp add: sizeRecord_missing)
qed

lemma rows_eq:
  "rows (analyzeSize nm deps) =
     map (\<lambda>p. (pkg_name p, sizeColor (pkg_size p), pkg_size p)) (packageSizes nm deps)"
proof -
  have "toFixed2 (pkg_size p) = pkg_size p" if mem: "p \<in> set (packageSizes nm deps)" for p
  proof -
    obtain k where k: "pkg_size p = of_int k / 100"
      using packageSizes_centi[OF mem] by blast
    show ?thesis unfolding k by (rule toFixed2_centi)
  qed
  then show ?thesis by (simp add: analyzeSize_def)
qed

lemma totalSize_eq:
  "totalSizeShown (analyzeSize nm deps) = toFixed2 (sum_list (map pkg_size (packageSizes nm deps)))"
  by (simp add: analyzeSize_def foldl_sum)

lemma totalSize_exact:
  "totalSizeShown (analyzeSize nm deps) = sum_list (map pkg_size (packageSizes nm deps))"
proof -
  obtain k where k: "sum_list (map pkg_size (packageSizes nm deps)) = of_int k / 100"
    using sum_centi[of "packageSizes nm deps"] packageSizes_centi by blast
  show ?thesis unfolding totalSize_eq k by (rule toFixed2_centi)
qed

lemma totalSize_rows:
  "totalSizeShown (analyzeSize nm deps) = sum_list (map (\<lambda>(n, c, sz). sz) (rows (analyzeSize nm deps)))"
  by (simp add: totalSize_exact rows_eq comp_def)

lemmas eval_report = analyzeSize_def packageSizes_def nonZeroSizes_def sizeRecord_def
  notFound_def existsSync_def arraySort_def bySizeDesc_def sizeColor_def eval_size

subsection \<open>The claims\<close>

lemma packageSizes_measured:
  assumes "p \<in> set (packageSizes nm deps)"
  shows "\<exists>depPath. nm (pkg_name p) = Some depPath \<and> pkg_size p = getTotalSizeInMB depPath"
proof -
  from assms obtain dep where p: "p = snd (sizeRecord nm dep)" and pos: "0 < pkg_size p"
    by (auto simp: packageSizes_def set_arraySort nonZeroSizes_def)
  show ?thesis
  proof (cases "nm dep")
    case None
    with p pos show ?thesis by (simp add: sizeRecord_def)
  next
    case (Some depPath)
    with p pos show ?thesis by (cases "existsSync (Some depPath)") (simp_all add: sizeRecord_def)
  qed
qed

text \<open>
  C3 (as amended). A dependency whose install path does not exist gets size 0 and a
  warning that names it; the records of size 0 are removed before anything is shown,
  so such a dependency never has a row. The size of a record that is shown is the
  number of megabytes the aggregator measured for its install directory, which is
  already rounded to two decimals, and the row shows it as it is. The total shown is
  the sum of the sizes the rows show: the sizes are added up as the rounded numbers
  they are, and the rounding of the sum by \<^verbatim>\<open>toFixed(2)\<close> changes nothing. The count
  is the number of rows.
\<close>

theorem analyzeSize_ledger:
  "(\<forall>dep. \<not> existsSync (nm dep) \<longrightarrow>
      sizeRecord nm dep =
        (Some (''Warning: '' @ dep @ '' not found in node_modules''),
         \<lparr>pkg_name = dep, pkg_size = 0\<rparr>)) \<and>
   warnings (analyzeSize nm deps) =
     map (\<lambda>dep. ''Warning: '' @ dep @ '' not found in node_modules'')
       (filter (\<lambda>dep. \<not> existsSync (nm dep)) deps) \<and>
   packageSizes nm deps =
     arraySort bySizeDesc
       (filter (\<lambda>p. pkg_size p \<noteq> 0) (map (\<lambda>dep. snd (sizeRecord nm dep)) deps)) \<and>
   (\<forall>dep. \<not> existsSync (nm dep) \<longrightarrow> dep \<notin> pkg_name ` set (packageSizes nm deps)) \<and>
   (\<forall>p \<in> set (packageSizes nm deps).
      (\<exists>depPath. nm (pkg_name p) = Some depPath \<and> pkg_size p = getTotalSizeInMB depPath) \<and>
      (\<exists>k. pkg_size p = of_int k / 100)) \<and>
   rows (analyzeSize nm deps) =
     map (\<lambda>p. (pkg_name p, sizeColor (pkg_size p), pkg_size p)) (packageSizes nm deps) \<and>
   totalSizeShown (analyzeSize nm deps) =
     sum_list (map (\<lambda>(n, c, sz). sz) (rows (analyzeSize nm deps))) \<and>
   totalPackages (analyzeSize nm deps) = length (rows (analyzeSize nm deps))"
proof (intro conjI allI impI ballI)
  show "warnings (analyzeSize nm deps) =
          map (\<lambda>dep. ''Warning: '' @ dep @ '' not found in node_modules'')
            (filter (\<lambda>dep. \<not> existsSync (nm dep)) deps)"
    using warnings_eq[of nm deps] by (simp add: analyzeSize_def notFound_def)
  show "packageSizes nm deps =
          arraySort bySizeDesc
            (filter (\<lambda>p. pkg_size p \<noteq> 0) (map (\<lambda>dep. snd (sizeRecord nm dep)) deps))"
    by (simp add: packageSizes_def nonZeroSizes_alt)
  show "totalPackages (analyzeSize nm deps) = length (rows (analyzeSize nm deps))"
    by (simp add: analyzeSize_def)
  show "sizeRecord nm dep =
        (Some (''Warning: '' @ dep @ '' not found in node_modules''),
         \<lparr>pkg_name = dep, pkg_size = 0\<rparr>)"
    if "\<not> existsSync (nm dep)" for dep
    using sizeRecord_missing[of nm dep] that by (simp add: notFound_def)
qed (rule missing_not_listed packageSizes_measured packageSizes_centi rows_eq totalSize_rows;
     assumption?)+

text \<open>
  The scenario of section 8 of the specification: \<^verbatim>\<open>pkgA\<close> (3 MB) is installed,
  \<^verbatim>\<open>pkgB\<close> is not.
\<close>

theorem analyzeSize_ledger_witness:
  "\<not> existsSync (exampleModules ''pkgB'') \<and>
   sizeRecord exampleModules ''pkgB'' =
     (Some ''Warning: pkgB not found in node_modules'', \<lparr>pkg_name = ''pkgB'', pkg_size = 0\<rparr>) \<and>
   warnings (analyzeSize exampleModules [''pkgA'', ''pkgB'']) =
     [''Warning: pkgB not found in node_modules''] \<and>
   ''pkgB'' \<notin> pkg_name ` set (packageSizes exampleModules [''pkgA'', ''pkgB'']) \<and>
   packageSizes exampleModules [''pkgA'', ''pkgB''] = [\<lparr>pkg_name = ''pkgA'', pkg_size = 3\<rparr>] \<and>
   rows (analyzeSize exampleModules [''pkgA'', ''pkgB'']) = [(''pkgA'', Green, 3)] \<and>
   totalSizeShown (analyzeSize exampleModules [''pkgA'', ''pkgB'']) = 3 \<and>
   totalPackages (analyzeSize exampleModules [''pkgA'', ''pkgB'']) = 1"
  using analyzeSize_ledger[of exampleModules "[''pkgA'', ''pkgB'']"]
  by (simp add: eval_report exampleModules_def)

text \<open>
  C3 as stated fails: the total is not the sum of the unrounded sizes rounded once.
  Three packages of 1054868 bytes are 3164604 bytes together, which is 3.018 MB and
  rounds to 3.02; the report shows 1.01 for each of them and the total 3.03.
\<close>

theorem analyzeSize_total_not_rounded_once_counterexample:
  "rows (analyzeSize exampleModules [''pkgF'', ''pkgG'', ''pkgH'']) =
     [(''pkgF'', Green, 101 / 100), (''pkgG'', Green, 101 / 100), (''pkgH'', Green, 101 / 100)] \<and>
   totalSizeShown (analyzeSize exampleModules [''pkgF'', ''pkgG'', ''pkgH'']) = 303 / 100 \<and>
   totalRoundedOnce exampleModules [''pkgF'', ''pkgG'', ''pkgH''] = 302 / 100"
  by (simp add: totalRoundedOnce_def eval_report exampleModules_def)

text \<open>
  C4. The class of a row depends on its size alone: exactly 5 is "low", exactly 10 is
  "medium", 10.01 is "high"; every size above 10 is "high", every size above 5 up to
  10 is "medium", every size up to 5 is "low"; and each row of the report carries the
  colour of its own size.
\<close>

theorem sizeColor_tiers:
  "tier (sizeColor 5) = ''low'' \<and>
   tier (sizeColor 10) = ''medium'' \<and>
   tier (sizeColor (1001 / 100)) = ''high'' \<and>
   (\<forall>sz. 10 < sz \<longrightarrow> tier (sizeColor sz) = ''high'') \<and>
   (\<forall>sz. 5 < sz \<and> sz \<le> 10 \<longrightarrow> tier (sizeColor sz) = ''medium'') \<and>
   (\<forall>sz. sz \<le> 5 \<longrightarrow> tier (sizeColor sz) = ''low'') \<and>
   (\<forall>row \<in> set (rows (analyzeSize nm deps)). fst (snd row) = sizeColor (snd (snd row)))"
  by (auto simp: sizeColor_def tier_def rows_eq)

theorem sizeColor_tiers_witness:
  "(10::rat) < 12 \<and> tier (sizeColor 12) = ''high'' \<and>
   (5::rat) < 7 \<and> (7::rat) \<le> 10 \<and> tier (sizeColor 7) = ''medium'' \<and>
   (3::rat) \<le> 5 \<and> tier (sizeColor 3) = ''low'' \<and>
   map (\<lambda>row. (fst row, tier (fst (snd row))))
     (rows (analyzeSize exampleModules [''pkgA'', ''pkgB'', ''pkgD''])) =
     [(''pkgD'', ''high''), (''pkgA'', ''low'')]"
  using sizeColor_tiers[of exampleModules "[''pkgA'', ''pkgB'', ''pkgD'']"]
  by (simp add: eval_report exampleModules_def tier_def)

text \<open>
  C8. The records are shown in descending order of size; the sort only permutes them;
  for every size, the records of that size stand in the order in which the
  dependencies were listed; and the rows follow the sorted records.
\<close>

theorem packageSizes_sorted_stable:
  "sorted_wrt (\<lambda>a b. pkg_size b \<le> pkg_size a) (packageSizes nm deps) \<and>
   mset (packageSizes nm deps) = mset (nonZeroSizes nm deps) \<and>
   (\<forall>s. filter (\<lambda>p. pkg_size p = s) (packageSizes nm deps) =
        filter (\<lambda>p. pkg_size p = s) (nonZeroSizes nm deps)) \<and>
   map fst (rows (analyzeSize nm deps)) = map pkg_name (packageSizes nm deps)"
  by (simp add: packageSizes_def sorted_arraySort mset_arraySort filter_arraySort
        analyzeSize_def comp_def)

text \<open>\<^verbatim>\<open>pkgC\<close> and \<^verbatim>\<open>pkgE\<close> have the same size and keep their order.\<close>

theorem packageSizes_sorted_stable_witness:
  "packageSizes exampleModules [''pkgA'', ''pkgB'', ''pkgC'', ''pkgD'', ''pkgE''] =
     [\<lparr>pkg_name = ''pkgD'', pkg_size = 20\<rparr>, \<lparr>pkg_name = ''pkgA'', pkg_size = 3\<rparr>,
      \<lparr>pkg_name = ''pkgC'', pkg_size = 1\<rparr>, \<lparr>pkg_name = ''pkgE'', pkg_size = 1\<rparr>] \<and>
   filter (\<lambda>p. pkg_size p = 1)
     (packageSizes exampleModules [''pkgA'', ''pkgB'', ''pkgC'', ''pkgD'', ''pkgE'']) =
     [\<lparr>pkg_name = ''pkgC'', pkg_size = 1\<rparr>, \<lparr>pkg_name = ''pkgE'', pkg_size = 1\<rparr>]"
  using packageSizes_sorted_stable
    [of exampleModules "[''pkgA'', ''pkgB'', ''pkgC'', ''pkgD'', ''pkgE'']"]
  by (simp add: eval_report exampleModules_def)

section \<open>Properties of the alternative matcher\<close>

lemma largeDepsAt_own:
  "dep \<notin> fst ` set objectPrototype \<Longrightarrow> largeDepsAt dep = map_of largeDeps dep"
proof -
  assume "dep \<notin> fst ` set objectPrototype"
  then have "map_of objectPrototype dep = None"
    by (simp add: map_of_eq_None_iff)
  then show ?thesis
    by (simp add: largeDepsAt_def split: option.splits)
qed

text \<open>
  For a dependency set that holds none of the names of \<^verbatim>\<open>Object.prototype\<close> the code
  computes the suggestions of the specification.
\<close>

lemma suggestions_table:
  "set rootDeps \<inter> fst ` set objectPrototype = {} \<Longrightarrow>
   suggestions rootDeps = tableSuggestions largeDeps rootDeps"
proof (induction rootDeps)
  case Nil
  show ?case by (simp add: tableSuggestions_def)
next
  case (Cons dep rootDeps)
  then have own: "largeDepsAt dep = map_of largeDeps dep"
    and rest: "suggestions rootDeps = tableSuggestions largeDeps rootDeps"
    by (auto intro: largeDepsAt_own)
  show ?case
    using own rest by (simp add: tableSuggestions_def split: option.splits)
qed

lemma suggestAlternatives_lodash:
  "suggestAlternatives [''lodash'', ''unknown-pkg''] =
     [''Consider using lodash-es instead of lodash''] \<and>
   suggestAlternatives [''unknown-pkg'', ''left-pad''] = [''No suggestions at the moment.'']"
  by (simp add: suggestAlternatives_def largeDepsAt_def largeDeps_def objectPrototype_def)

text \<open>
  C5. The claim: one suggestion for every installed name that is a key of the table,
  and for no other name. The name \<^verbatim>\<open>constructor\<close> is not a key of the table, yet
  \<^verbatim>\<open>largeDeps["constructor"]\<close> is the inherited function \<^verbatim>\<open>Object\<close>, which is truthy: the
  code prints a suggestion for it, where the specification has none and the
  no-suggestions message is due.
\<close>

theorem suggestAlternatives_inherited_key:
  "map_of largeDeps ''constructor'' = None \<and>
   tableSuggestions largeDeps [''constructor''] = [] \<and>
   suggestAlternatives [''constructor''] =
     [''Consider using function Object() { [native code] } instead of constructor'']"
  by (simp add: suggestAlternatives_def largeDepsAt_def largeDeps_def objectPrototype_def
        tableSuggestions_def)

section \<open>Properties of the tree renderer\<close>

subsection \<open>Indentation and sequencing\<close>

lemma repeatIndent_spaces: "repeatIndent level = replicate (2 * level) CHR '' ''"
  by (induction level) (simp_all add: repeatIndent_def)

lemma repeatIndent_Suc: "repeatIndent level @ ''  '' = repeatIndent (Suc level)"
proof -
  have "replicate k c @ [c, c] = c # c # replicate k c" for k and c :: char
    by (induction k) auto
  then show ?thesis by (simp add: repeatIndent_spaces)
qed

lemma thenPrint_simps [simp]:
  "thenPrint (Inr xs) (Inr ys) = Inr (xs @ ys)"
  "thenPrint (Inl e) b = Inl e"
  "thenPrint (Inr []) b = b"
  "thenPrint a (Inr []) = a"
  by (simp_all add: thenPrint_def split: sum.splits)

lemma thenPrint_assoc: "thenPrint (thenPrint a b) c = thenPrint a (thenPrint b c)"
  by (simp add: thenPrint_def split: sum.splits)

lemma thenPrint_Inr:
  "thenPrint a b = Inr zs \<longleftrightarrow> (\<exists>xs ys. a = Inr xs \<and> b = Inr ys \<and> zs = xs @ ys)"
  by (auto simp: thenPrint_def split: sum.splits)


lemma ownPropertyOrder_id:
  "\<forall>e \<in> set es. \<not> isArrayIndex (fst e) \<Longrightarrow> ownPropertyOrder es = es"
  by (simp add: ownPropertyOrder_def)

lemma printDependencyTree_object:
  "printDependencyTree m (JObject es) level = printEntries m (ownPropertyOrder es) level"
  by (simp add: objectEntries_def)

lemma printEntries_append:
  "printEntries m (es1 @ es2) level =
     thenPrint (printEntries m es1 level) (printEntries m es2 level)"
proof (induction es1)
  case Nil
  show ?case by simp
next
  case (Cons e es1)
  obtain name info where e: "e = (name, info)" by (cases e)
  show ?case
    unfolding e append_Cons printEntries.simps Cons.IH
    by (simp only: thenPrint_assoc)
qed

lemma printPeers_texts:
  "printPeers indent es = map (\<lambda>(peer, t). PeerLine (indent @ ''  '') peer t) (peerTexts es)"
  by (induction es) (auto split: sum.splits)

lemma peerLines_declared:
  "peerLines m (repeatIndent level) name =
     map (\<lambda>(peer, rng). PeerLine (repeatIndent (Suc level)) peer rng) (declaredPeers m name)"
  by (simp add: peerLines_def declaredPeers_def printPeers_texts repeatIndent_Suc getProp_def
           split: option.splits)

lemma starts_with_node:
  "\<forall>lines. printDependencyTree m deps level = Inr lines \<longrightarrow>
     lines = [] \<or> (\<exists>i n v below. lines = NodeLine i n v # below)"
  "\<forall>lines. printEntries m es level = Inr lines \<longrightarrow>
     lines = [] \<or> (\<exists>i n v below. lines = NodeLine i n v # below)"
proof (induction m deps level and m es level rule: printDependencyTree_printEntries.induct)
  case (1 readManifest deps level)
  then show ?case by simp
next
  case (2 readManifest level)
  show ?case by simp
next
  case (3 readManifest name info rest level)
  show ?case
  proof (intro allI impI)
    fix lines
    assume pr: "printEntries readManifest ((name, info) # rest) level = Inr lines"
    then obtain xs ys where
      xs: "(if name = ''dependencies'' then printDependencyTree readManifest info level
           else if info = JNull then Inl TypeError
           else
             (case toText (versionOf info) of
                Inl e \<Rightarrow> Inl e
              | Inr version \<Rightarrow>
                  thenPrint
                    (Inr (NodeLine (repeatIndent level) name version
                          # peerLines readManifest (repeatIndent level) name))
                    (case getProp info ''dependencies'' of
                       None \<Rightarrow> Inr []
                     | Some dependencies \<Rightarrow>
                         if truthy (Some dependencies) then
                           printDependencyTree readManifest dependencies (level + 1)
                         else Inr []))) = Inr xs"
      and ys: "printEntries readManifest rest level = Inr ys"
      and l: "lines = xs @ ys"
      unfolding printEntries.simps thenPrint_Inr by blast
    show "lines = [] \<or> (\<exists>i n v below. lines = NodeLine i n v # below)"
    proof (cases "name = ''dependencies''")
      case True
      with xs have "printDependencyTree readManifest info level = Inr xs" by simp
      with 3(1)[OF True] have "xs = [] \<or> (\<exists>i n v below. xs = NodeLine i n v # below)"
        by blast
      moreover from 3(3) ys have "ys = [] \<or> (\<exists>i n v below. ys = NodeLine i n v # below)"
        by blast
      ultimately show ?thesis using l by auto
    next
      case False
      with xs obtain v below where "xs = NodeLine (repeatIndent level) name v # below"
        by (auto simp: thenPrint_Inr split: if_splits sum.splits)
      with l show ?thesis by simp
    qed
  qed
qed

subsection \<open>Values on which nothing is thrown\<close>







subsection \<open>The block of a node\<close>

lemma node_block:
  assumes nm: "name \<noteq> ''dependencies''"
    and pr: "printEntries m ((name, info) # rest) level = Inr block"
  shows "\<exists>version below.
           info \<noteq> JNull \<and> toText (versionOf info) = Inr version \<and>
           block = NodeLine (repeatIndent level) name version
                   # peerLines m (repeatIndent level) name @ below \<and>
           (below = [] \<or> \<not> isPeerLine (hd below)) \<and>
           (getProp info ''dependencies'' = None \<and> rest = [] \<longrightarrow> below = [])"
proof -
  from pr obtain xs ys where
    xs: "(if info = JNull then Inl TypeError
          else
            (case toText (versionOf info) of
               Inl e \<Rightarrow> Inl e
             | Inr version \<Rightarrow>
                 thenPrint
                   (Inr (NodeLine (repeatIndent level) name version
                         # peerLines m (repeatIndent level) name))
                   (case getProp info ''dependencies'' of
                      None \<Rightarrow> Inr []
                    | Some dependencies \<Rightarrow>
                        if truthy (Some dependencies) then
                          printDependencyTree m dependencies (level + 1)
                        else Inr []))) = Inr xs"
    and ys: "printEntries m rest level = Inr ys"
    and b: "block = xs @ ys"
    using nm unfolding printEntries.simps thenPrint_Inr by auto
  from xs have n: "info \<noteq> JNull" by (auto split: if_splits)
  from xs n obtain version where v: "toText (versionOf info) = Inr version"
    by (cases "toText (versionOf info)") auto
  from xs n v obtain cs where
    cs: "(case getProp info ''dependencies'' of
            None \<Rightarrow> Inr []
          | Some dependencies \<Rightarrow>
              if truthy (Some dependencies) then printDependencyTree m dependencies (level + 1)
              else Inr []) = Inr cs"
    and x: "xs = NodeLine (repeatIndent level) name version
                 # peerLines m (repeatIndent level) name @ cs"
    by (auto simp: thenPrint_Inr simp del: printDependencyTree.simps)
  have c: "cs = [] \<or> \<not> isPeerLine (hd cs)"
  proof (cases "getProp info ''dependencies''")
    case None
    with cs show ?thesis by simp
  next
    case (Some dependencies)
    show ?thesis
    proof (cases "truthy (Some dependencies)")
      case True
      with cs Some have "printDependencyTree m dependencies (level + 1) = Inr cs"
        by (simp del: printDependencyTree.simps)
      with starts_with_node(1)[of m dependencies "level + 1"] show ?thesis by auto
    next
      case False
      with cs Some show ?thesis by simp
    qed
  qed
  have r: "ys = [] \<or> \<not> isPeerLine (hd ys)"
    using starts_with_node(2)[of m rest level] ys by auto
  have "cs @ ys = [] \<or> \<not> isPeerLine (hd (cs @ ys))"
    using c r by (cases cs) auto
  moreover have "getProp info ''dependencies'' = None \<and> rest = [] \<longrightarrow> cs @ ys = []"
    using cs ys by auto
  moreover have "block = NodeLine (repeatIndent level) name version
                   # peerLines m (repeatIndent level) name @ (cs @ ys)"
    using b x by simp
  ultimately show ?thesis using n v by blast
qed

lemma takeWhile_block:
  "\<forall>x \<in> set xs. P x \<Longrightarrow> ys = [] \<or> \<not> P (hd ys) \<Longrightarrow> takeWhile P (xs @ ys) = xs"
  by (induction xs) (auto simp: takeWhile_eq_Nil_iff)

lemma peerLines_all_peer: "\<forall>l \<in> set (peerLines m indent name). isPeerLine l"
  by (auto simp: peerLines_def printPeers_texts split: option.splits)

lemma peerAnnotations_peerLines:
  "concat (map (\<lambda>l. case l of PeerLine indent peer rng \<Rightarrow> [(peer, rng)]
                       | NodeLine indent name version \<Rightarrow> [])
              (peerLines m indent name)) = declaredPeers m name"
  by (simp add: peerLines_def declaredPeers_def printPeers_texts comp_def case_prod_unfold
        getProp_def split: option.splits)

lemma peerAnnotations_block:
  assumes "name \<noteq> ''dependencies''"
    and "printEntries m ((name, info) # rest) level = Inr block"
  shows "peerAnnotations block = declaredPeers m name"
proof -
  from node_block[OF assms] obtain version below where
    b: "block = NodeLine (repeatIndent level) name version
                # peerLines m (repeatIndent level) name @ below"
    and e: "below = [] \<or> \<not> isPeerLine (hd below)" by blast
  have "takeWhile isPeerLine (peerLines m (repeatIndent level) name @ below) =
      peerLines m (repeatIndent level) name"
    using peerLines_all_peer e by (rule takeWhile_block)
  then show ?thesis
    unfolding peerAnnotations_def b by (simp add: peerAnnotations_peerLines)
qed

subsection \<open>Trees without reserved names\<close>

lemma map_of_absent: "k \<notin> fst ` set es \<Longrightarrow> map_of es k = None"
  by (simp add: map_of_eq_None_iff)

lemma getProp_version:
  "''version'' \<notin> fst ` set other \<Longrightarrow>
   getProp (infoJson (Pkg name version other deps)) ''version'' = map_option JString version"
  by (cases version; cases deps) (simp_all add: getProp_def map_of_absent map_add_def)

lemma getProp_dependencies:
  "''dependencies'' \<notin> fst ` set other \<Longrightarrow>
   getProp (infoJson (Pkg name version other deps)) ''dependencies'' =
     map_option (\<lambda>ts. JObject (depsEntries ts)) deps"
  by (cases version; cases deps) (simp_all add: getProp_def map_of_absent map_add_def)

lemma versionOf_infoJson:
  "''version'' \<notin> fst ` set other \<Longrightarrow> version \<noteq> Some [] \<Longrightarrow>
   toText (versionOf (infoJson (Pkg name version other deps))) =
     Inr (case version of None \<Rightarrow> ''unknown'' | Some v \<Rightarrow> v)"
  by (cases version)
     (simp_all add: versionOf_def getProp_version truthy_def toText_def del: infoJson.simps)

lemma infoJson_not_null: "infoJson t \<noteq> JNull"
  by (cases t) simp

lemma wellShaped_name: "wellShaped t \<Longrightarrow> \<not> isArrayIndex (treeName t)"
  by (cases t) simp

lemma wellShaped_depsEntries:
  "wellShapedForest ts \<Longrightarrow> \<forall>e \<in> set (depsEntries ts). \<not> isArrayIndex (fst e)"
  by (induction ts) (simp_all add: wellShaped_name)

lemma wellShaped_order: "wellShapedForest ts \<Longrightarrow> ownPropertyOrder (depsEntries ts) = depsEntries ts"
  by (rule ownPropertyOrder_id) (rule wellShaped_depsEntries)

text \<open>
  On a tree in which no package is named \<^verbatim>\<open>dependencies\<close> or by an array index the
  renderer returns, and it has printed what section 4.2 describes: one line per node, in pre-order, indented by two blanks per
  level, each followed by one annotation per declared peer at the next level of
  indentation; so it prints as many lines as there are nodes and declared peers.
\<close>

lemma renders_shape:
  "wellShaped t \<longrightarrow> printEntries m [(treeName t, infoJson t)] d = Inr (renderNode m d t)"
  "wellShapedForest ts \<longrightarrow> printEntries m (depsEntries ts) d = Inr (renderForest m d ts)"
proof (induction m d t and m d ts rule: renderNode_renderForest.induct)
  case (1 readManifest d name version other deps)
  show ?case
  proof
    let ?t = "Pkg name version other deps"
    assume ws: "wellShaped ?t"
    then have nm: "name \<noteq> ''dependencies''" and v: "version \<noteq> Some []"
      and o1: "''version'' \<notin> fst ` set other" and o2: "''dependencies'' \<notin> fst ` set other"
      by simp_all
    have children:
      "(case getProp (infoJson ?t) ''dependencies'' of
          None \<Rightarrow> Inr []
        | Some dependencies \<Rightarrow>
            if truthy (Some dependencies) then printDependencyTree readManifest dependencies (d + 1)
            else Inr [])
       = Inr (case deps of None \<Rightarrow> [] | Some ts \<Rightarrow> renderForest readManifest (d + 1) ts)"
    proof (cases deps)
      case None
      then show ?thesis using o2 by (simp add: getProp_dependencies del: infoJson.simps)
    next
      case (Some ts)
      with ws have wf: "wellShapedForest ts" by simp
      with 1[OF Some] have "printEntries readManifest (depsEntries ts) (d + 1) =
          Inr (renderForest readManifest (d + 1) ts)" by simp
      then show ?thesis
        using Some o2
        by (simp add: getProp_dependencies truthy_def printDependencyTree_object
              wellShaped_order[OF wf] del: infoJson.simps printDependencyTree.simps)
    qed
    have "printEntries readManifest [(name, infoJson ?t)] d =
        (case toText (versionOf (infoJson ?t)) of
           Inl e \<Rightarrow> Inl e
         | Inr version \<Rightarrow>
             thenPrint
               (Inr (NodeLine (repeatIndent d) name version
                     # peerLines readManifest (repeatIndent d) name))
               (case getProp (infoJson ?t) ''dependencies'' of
                  None \<Rightarrow> Inr []
                | Some dependencies \<Rightarrow>
                    if truthy (Some dependencies) then
                      printDependencyTree readManifest dependencies (d + 1)
                    else Inr []))"
      using nm infoJson_not_null[of ?t]
      by (simp del: infoJson.simps printDependencyTree.simps)
    also have "\<dots> =
        Inr (NodeLine (repeatIndent d) name (case version of None \<Rightarrow> ''unknown'' | Some v \<Rightarrow> v)
             # map (\<lambda>(peer, rng). PeerLine (repeatIndent (Suc d)) peer rng)
                 (declaredPeers readManifest name)
             @ (case deps of None \<Rightarrow> [] | Some ts \<Rightarrow> renderForest readManifest (d + 1) ts))"
      by (simp only: children peerLines_declared versionOf_infoJson[OF o1 v] sum.case
            thenPrint_simps append_Cons)
    also have "\<dots> = Inr (renderNode readManifest d ?t)"
      by (simp add: repeatIndent_spaces)
    finally show "printEntries readManifest [(treeName ?t, infoJson ?t)] d =
        Inr (renderNode readManifest d ?t)"
      by (simp only: treeName.simps)
  qed
next
  case (2 readManifest d)
  show ?case by simp
next
  case (3 readManifest d t ts)
  show ?case
  proof
    assume ws: "wellShapedForest (t # ts)"
    with 3 have a: "printEntries readManifest [(treeName t, infoJson t)] d =
        Inr (renderNode readManifest d t)"
      and b: "printEntries readManifest (depsEntries ts) d = Inr (renderForest readManifest d ts)"
      by simp_all
    have "depsEntries (t # ts) = [(treeName t, infoJson t)] @ depsEntries ts"
      by simp
    then show "printEntries readManifest (depsEntries (t # ts)) d =
        Inr (renderForest readManifest d (t # ts))"
      using a b by (simp only: printEntries_append renderForest.simps thenPrint_simps)
  qed
qed

lemma printDependencyTree_renders_shape:
  "wellShapedForest ts \<Longrightarrow> printDependencyTree m (rootJson ts) 0 = Inr (renderForest m 0 ts)"
  using renders_shape(2)[of ts m 0]
  by (simp add: rootJson_def objectEntries_def wellShaped_order ownPropertyOrder_id
        isArrayIndex_def)

lemma length_render:
  "length (renderNode m d t) = nodeCount t + peerCount m t"
  "length (renderForest m d ts) = forestCount ts + forestPeerCount m ts"
  by (induction m d t and m d ts rule: renderNode_renderForest.induct)
     (auto split: option.splits)

lemma node_lines_of_render:
  "filter isNodeLine (renderNode m d t) = positions d t"
  "filter isNodeLine (renderForest m d ts) = forestPositions d ts"
  by (induction m d t and m d ts rule: renderNode_renderForest.induct)
     (auto simp: filter_map comp_def case_prod_unfold split: option.splits)

lemmas eval_tree = rootJson_def objectEntries_def ownPropertyOrder_def isArrayIndex_def
  indexValue_def getProp_def truthy_def toText_def versionOf_def peerLines_def
  repeatIndent_def declaredPeers_def

lemma example_output:
  "printDependencyTree exampleManifests (rootJson exampleTree) 0 =
     Inr [NodeLine [] ''axios'' ''1.6.0'',
          NodeLine ''  '' ''lodash'' ''3.10.1'',
          NodeLine ''  '' ''react-dom'' ''17.0.2'',
          PeerLine ''    '' ''react'' ''^18.0.0'',
          NodeLine [] ''react-dom'' ''18.2.0'',
          PeerLine ''  '' ''react'' ''^18.0.0'',
          NodeLine [] ''lodash'' ''4.17.21'',
          NodeLine [] ''left-pad'' ''unknown'']"
  by (simp add: eval_tree exampleTree_def exampleManifests_def)

subsection \<open>The claims\<close>

text \<open>
  C6. The claim: for every tree of \<open>N\<close> nodes the renderer prints exactly \<open>N\<close> node
  lines, one per node. The renderer prints every key of every object it walks as a
  package, except the key \<^verbatim>\<open>dependencies\<close>, which it takes for the wrapper of a child
  set. So the fields \<^verbatim>\<open>version\<close> and \<^verbatim>\<open>name\<close> that \<^verbatim>\<open>npm list --json\<close> puts beside
  \<^verbatim>\<open>dependencies\<close> in the root object are printed as two packages, \<^verbatim>\<open>version@unknown\<close>
  and \<^verbatim>\<open>name@unknown\<close>: a project with the one dependency \<^verbatim>\<open>lodash\<close> gets three node
  lines below its own. And a package that is itself named \<^verbatim>\<open>dependencies\<close> gets no
  line: a tree of one node, the package \<^verbatim>\<open>dependencies@1.0.0\<close>, is due the line
  \<^verbatim>\<open>dependencies@1.0.0\<close> and gets the line \<^verbatim>\<open>version@unknown\<close>; without a version field
  it gets no line at all. (For a root object with the field \<^verbatim>\<open>dependencies\<close> alone and
  a tree without such a package, and without a package named by an array index, the
  claim holds: \<open>printDependencyTree_renders_shape\<close> and \<open>length_render\<close>.)
\<close>

theorem printDependencyTree_extra_and_missing_lines:
  "forestCount [Pkg ''lodash'' (Some ''4.17.21'') [] None] = 1 \<and>
   printDependencyTree (\<lambda>name. None)
     (JObject [(''version'', JString ''1.0.0''),
               (''name'', JString ''my-project''),
               (''dependencies'', JObject (depsEntries [Pkg ''lodash'' (Some ''4.17.21'') [] None]))])
     0 =
     Inr [NodeLine [] ''version'' ''unknown'',
          NodeLine [] ''name'' ''unknown'',
          NodeLine [] ''lodash'' ''4.17.21''] \<and>
   forestCount [Pkg ''dependencies'' (Some ''1.0.0'') [] None] = 1 \<and>
   renderForest (\<lambda>name. None) 0 [Pkg ''dependencies'' (Some ''1.0.0'') [] None] =
     [NodeLine [] ''dependencies'' ''1.0.0''] \<and>
   printDependencyTree (\<lambda>name. None) (rootJson [Pkg ''dependencies'' (Some ''1.0.0'') [] None]) 0 =
     Inr [NodeLine [] ''version'' ''unknown''] \<and>
   printDependencyTree (\<lambda>name. None) (rootJson [Pkg ''dependencies'' None [] None]) 0 = Inr []"
  by (simp add: eval_tree)

text \<open>
  For a tree in which no package is named \<^verbatim>\<open>dependencies\<close> or by an array index the
  node lines are the positions of the tree in pre-order, children in the reported
  order, every position with its own name and version, however often a name occurs.
  In the example \<^verbatim>\<open>lodash\<close> stands at two positions, with versions 3.10.1 and 4.17.21,
  and so does \<^verbatim>\<open>react-dom\<close>; each position has its line.
\<close>

lemma printDependencyTree_positions:
  assumes "wellShapedForest ts"
  shows "\<exists>lines. printDependencyTree m (rootJson ts) 0 = Inr lines \<and>
                 filter isNodeLine lines = forestPositions 0 ts"
  using assms
  by (simp add: printDependencyTree_renders_shape node_lines_of_render(2)
        del: printDependencyTree.simps)

lemma example_positions:
  "wellShapedForest exampleTree \<and>
   forestPositions 0 exampleTree =
     [NodeLine [] ''axios'' ''1.6.0'',
      NodeLine ''  '' ''lodash'' ''3.10.1'',
      NodeLine ''  '' ''react-dom'' ''17.0.2'',
      NodeLine [] ''react-dom'' ''18.2.0'',
      NodeLine [] ''lodash'' ''4.17.21'',
      NodeLine [] ''left-pad'' ''unknown'']"
  by (simp add: exampleTree_def isArrayIndex_def numeral_2_eq_2)





text \<open>
  C10. The peer annotations under the line of a node are the peers declared in the
  manifest that \<open>readManifest\<close> finds for the name of the node, the one at
  \<^verbatim>\<open>node_modules/<name>/package.json\<close>: they depend on the name alone, not on the
  value of the node (its version, its dependencies), its level or its neighbours. Two
  occurrences of a name have the same annotations.
\<close>

theorem peer_annotations_keyed_by_name:
  "name \<noteq> ''dependencies'' \<Longrightarrow>
   printEntries m ((name, info) # rest) level = Inr block \<Longrightarrow>
   printEntries m ((name, info') # rest') level' = Inr block' \<Longrightarrow>
   peerAnnotations block = declaredPeers m name \<and> peerAnnotations block' = peerAnnotations block"
proof -
  assume nm: "name \<noteq> ''dependencies''"
    and b: "printEntries m ((name, info) # rest) level = Inr block"
    and b': "printEntries m ((name, info') # rest') level' = Inr block'"
  have "peerAnnotations block = declaredPeers m name"
    using nm b by (rule peerAnnotations_block)
  moreover have "peerAnnotations block' = declaredPeers m name"
    using nm b' by (rule peerAnnotations_block)
  ultimately show ?thesis by simp
qed

text \<open>
  \<^verbatim>\<open>react-dom\<close> 17.0.2 at level 1 and \<^verbatim>\<open>react-dom\<close> 18.2.0 at level 0 both show the
  peer of the one manifest on disk.
\<close>

theorem peer_annotations_keyed_by_name_witness:
  "''react-dom'' \<noteq> ''dependencies'' \<and>
   printEntries exampleManifests
     [(''react-dom'', JObject [(''version'', JString ''17.0.2'')])] 1 =
     Inr [NodeLine ''  '' ''react-dom'' ''17.0.2'', PeerLine ''    '' ''react'' ''^18.0.0''] \<and>
   printEntries exampleManifests
     [(''react-dom'', JObject [(''version'', JString ''18.2.0'')]),
      (''lodash'', JObject [(''version'', JString ''4.17.21'')])] 0 =
     Inr [NodeLine [] ''react-dom'' ''18.2.0'', PeerLine ''  '' ''react'' ''^18.0.0'',
          NodeLine [] ''lodash'' ''4.17.21''] \<and>
   peerAnnotations
     [NodeLine ''  '' ''react-dom'' ''17.0.2'', PeerLine ''    '' ''react'' ''^18.0.0''] =
     declaredPeers exampleManifests ''react-dom'' \<and>
   declaredPeers exampleManifests ''react-dom'' = [(''react'', ''^18.0.0'')] \<and>
   peerAnnotations
     [NodeLine [] ''react-dom'' ''18.2.0'', PeerLine ''  '' ''react'' ''^18.0.0'',
      NodeLine [] ''lodash'' ''4.17.21''] =
   peerAnnotations
     [NodeLine ''  '' ''react-dom'' ''17.0.2'', PeerLine ''    '' ''react'' ''^18.0.0'']"
  using peer_annotations_keyed_by_name
    [of "''react-dom''" exampleManifests "JObject [(''version'', JString ''17.0.2'')]" "[]" 1
        "[NodeLine ''  '' ''react-dom'' ''17.0.2'', PeerLine ''    '' ''react'' ''^18.0.0'']"
        "JObject [(''version'', JString ''18.2.0'')]"
        "[(''lodash'', JObject [(''version'', JString ''4.17.21'')])]" 0
        "[NodeLine [] ''react-dom'' ''18.2.0'', PeerLine ''  '' ''react'' ''^18.0.0'',
          NodeLine [] ''lodash'' ''4.17.21'']"]
  by (simp add: eval_tree exampleManifests_def peerAnnotations_def)

end
